theory Spec2Isabelle
  imports Main
begin

section \<open>Token lifecycle of the todo-app: a shallow embedding\<close>

text \<open>
  The development follows the Go sources of the authentication core:
  \<^verbatim>\<open>pkg/jwt/jwt.go\<close> (token codec), \<^verbatim>\<open>internal/repository\<close> (PostgreSQL
  repositories over \<^verbatim>\<open>migrations/schema.sql\<close>), the \<^verbatim>\<open>AuthService\<close>
  (register, login, refresh, logout), the \<^verbatim>\<open>Auth\<close> middleware and the
  authentication handlers.

  Everything outside the program is an explicit input: the system clock, the UUID
  generator and the outcome of each SQL statement are oracles carried by the
  \<open>world\<close>; bcrypt is a pair of functions handed to the service; a signed token is a
  symbolic term (an ideal MAC), in the style of symbolic protocol models.
\<close>

subsection \<open>Errors\<close>

text \<open>
  The sentinel errors of \<^verbatim>\<open>internal/domain/errors.go\<close>, the errors of the linked
  libraries, and the two ways the code builds new errors: \<^verbatim>\<open>fmt.Errorf("p: %w", err)\<close>
  is \<open>Wrap p err\<close>, an error without a cause is \<open>ErrorNew\<close>. A Go \<^verbatim>\<open>error\<close> result
  is an \<open>error option\<close> (\<open>None\<close> is \<^verbatim>\<open>nil\<close>), a \<^verbatim>\<open>(T, error)\<close> result is
  \<open>error + T\<close>.
\<close>

datatype error =
    ErrNotFound
  | ErrAlreadyExists
  | ErrUnauthorized
  | ErrForbidden
  | ErrInvalidCredentials
  | ErrTokenExpired
  | ErrTokenInvalid
  | ErrValidation
  | ErrInternal
  | ErrNoRows
  | PqError string
  | ErrDriver
  | ErrorNew string
  | Wrap string error

fun errors_Is :: "error \<Rightarrow> error \<Rightarrow> bool" where
  "errors_Is (Wrap p e) target = (if Wrap p e = target then True else errors_Is e target)"
| "errors_Is e target = (e = target)"

subsection \<open>Time, identifiers, strings\<close>

text \<open>
  A \<^verbatim>\<open>time.Time\<close> is the number of nanoseconds since the epoch and a
  \<^verbatim>\<open>time.Duration\<close> a number of nanoseconds, both unbounded. A UUID is identified
  with its canonical text, so \<^verbatim>\<open>uuid.String\<close> is the identity.
\<close>

type_synonym time = int
type_synonym duration = int
type_synonym uuid = string
type_synonym bytes = string

definition Second :: duration where
  "Second = 1000000000"

definition Minute :: duration where
  "Minute = 60 * Second"

definition Hour :: duration where
  "Hour = 60 * Minute"

definition Before :: "time \<Rightarrow> time \<Rightarrow> bool" where
  "Before t u = (t < u)"

definition uuid_String :: "uuid \<Rightarrow> string" where
  "uuid_String u = u"

subsection \<open>Signed tokens (golang-jwt, modelled symbolically)\<close>

text \<open>
  \<^verbatim>\<open>TokenType\<close> is a Go string type with two named values; a token made by anybody
  else may carry any string.
\<close>

type_synonym TokenType = string

definition AccessToken :: TokenType where
  "AccessToken = ''access''"

definition RefreshToken :: TokenType where
  "RefreshToken = ''refresh''"

record Claims =
  claims_UserID :: uuid
  claims_TokenType :: TokenType
  claims_IssuedAt :: "time option"
  claims_ExpiresAt :: "time option"
  claims_NotBefore :: "time option"
  claims_ID :: string

text \<open>
  The header names the algorithm. The keyfunc of \<^verbatim>\<open>parse\<close> accepts the whole
  HMAC family; every other algorithm (\<^verbatim>\<open>none\<close>, RS256, an unregistered name) is
  \<open>NonHMAC\<close>. A signature is either the MAC of this header and payload under some
  key, or bytes that are the MAC under no key.
\<close>

datatype alg = HS256 | HS384 | HS512 | NonHMAC string

datatype signature = MAC bytes | Junk string

datatype jws = JWS alg Claims signature

text \<open>
  A string of the program is a list of symbols: ordinary characters, and compact
  serialisations of tokens, each one symbol that is no character (the serialisation
  of a token contains no space and two dots). A string that is not exactly one token
  symbol does not parse as a token.
\<close>

datatype sym = Chr char | Tok jws

type_synonym gostring = "sym list"

definition str :: "string \<Rightarrow> gostring" where
  "str s = map Chr s"

subsection \<open>The world: database, clock, UUID source\<close>

record User =
  user_ID :: uuid
  user_Name :: string
  user_Email :: string
  user_Password :: string
  user_CreatedAt :: time
  user_UpdatedAt :: time
  user_DeletedAt :: "time option"

record RefreshTokenRow =
  rt_ID :: uuid
  rt_UserID :: uuid
  rt_Token :: gostring
  rt_DeviceID :: string
  rt_UserAgent :: string
  rt_ExpiresAt :: time
  rt_CreatedAt :: time

text \<open>
  \<open>users\<close> and \<open>refresh_tokens\<close> are the two tables. \<open>fault_at n\<close> says whether the
  \<open>n\<close>-th SQL statement fails in the driver (cancelled context, lost connection, or a
  constraint that is not modelled below); \<open>clock n\<close> is the \<open>n\<close>-th reading of
  \<^verbatim>\<open>time.Now()\<close>; \<open>uuid_src n\<close> is the \<open>n\<close>-th result of \<^verbatim>\<open>uuid.New()\<close>.
\<close>

record world =
  users :: "User list"
  refresh_tokens :: "RefreshTokenRow list"
  fault_at :: "nat \<Rightarrow> bool"
  stmts :: nat
  clock :: "nat \<Rightarrow> time"
  reads :: nat
  uuid_src :: "nat \<Rightarrow> uuid"
  uuid_ctr :: nat

definition time_Now :: "world \<Rightarrow> time \<times> world" where
  "time_Now w = (clock w (reads w), w\<lparr>reads := Suc (reads w)\<rparr>)"

definition uuid_New :: "world \<Rightarrow> uuid \<times> world" where
  "uuid_New w = (uuid_src w (uuid_ctr w), w\<lparr>uuid_ctr := Suc (uuid_ctr w)\<rparr>)"

definition db_statement :: "world \<Rightarrow> bool \<times> world" where
  "db_statement w = (fault_at w (stmts w), w\<lparr>stmts := Suc (stmts w)\<rparr>)"

subsection \<open>pkg/jwt\<close>

record Manager =
  accessSecret :: bytes
  refreshSecret :: bytes
  accessTTL :: duration
  refreshTTL :: duration

definition New :: "string \<Rightarrow> string \<Rightarrow> duration \<Rightarrow> duration \<Rightarrow> Manager" where
  "New accessSecret' refreshSecret' accessTTL' refreshTTL' =
     \<lparr>accessSecret = accessSecret', refreshSecret = refreshSecret',
      accessTTL = accessTTL', refreshTTL = refreshTTL'\<rparr>"

text \<open>\<^verbatim>\<open>jwt.NewNumericDate\<close> truncates to the precision of the library, one second.\<close>

definition NewNumericDate :: "time \<Rightarrow> time" where
  "NewNumericDate t = t - t mod Second"

text \<open>
  \<^verbatim>\<open>token.SignedString(secret)\<close> with an HMAC method and a byte-slice key: the
  serialisation of header, claims and their MAC under the key.
\<close>

definition SignedString :: "alg \<Rightarrow> Claims \<Rightarrow> bytes \<Rightarrow> error + gostring" where
  "SignedString a c key = Inr [Tok (JWS a c (MAC key))]"

definition generate :: "Manager \<Rightarrow> uuid \<Rightarrow> TokenType \<Rightarrow> bytes \<Rightarrow> duration \<Rightarrow> world
    \<Rightarrow> (error + gostring) \<times> world" where
  "generate m userID tokenType secret ttl w =
     (case time_Now w of (now, w1) \<Rightarrow>
      case uuid_New w1 of (jti, w2) \<Rightarrow>
      (let claims = \<lparr>claims_UserID = userID, claims_TokenType = tokenType,
                     claims_IssuedAt = Some (NewNumericDate now),
                     claims_ExpiresAt = Some (NewNumericDate (now + ttl)),
                     claims_NotBefore = None,
                     claims_ID = uuid_String jti\<rparr>
       in case SignedString HS256 claims secret of
            Inl err \<Rightarrow> (Inl (Wrap ''sign token'' err), w2)
          | Inr signed \<Rightarrow> (Inr signed, w2)))"

definition GenerateAccessToken :: "Manager \<Rightarrow> uuid \<Rightarrow> world \<Rightarrow> (error + gostring) \<times> world" where
  "GenerateAccessToken m userID w = generate m userID AccessToken (accessSecret m) (accessTTL m) w"

definition GenerateRefreshToken :: "Manager \<Rightarrow> uuid \<Rightarrow> world \<Rightarrow> (error + gostring) \<times> world" where
  "GenerateRefreshToken m userID w =
     generate m userID RefreshToken (refreshSecret m) (refreshTTL m) w"

text \<open>The keyfunc of \<^verbatim>\<open>parse\<close>: the method must be an HMAC method.\<close>

definition keyFunc :: "bytes \<Rightarrow> alg \<Rightarrow> error + bytes" where
  "keyFunc secret a =
     (case a of
        NonHMAC name \<Rightarrow> Inl (ErrorNew ''unexpected signing method'')
      | _ \<Rightarrow> Inr secret)"

text \<open>
  \<^verbatim>\<open>jwt.ParseWithClaims\<close> without options: split and decode the three segments,
  ask the keyfunc for the key, verify the signature, then validate the registered
  claims against \<^verbatim>\<open>time.Now()\<close>: a token with an expiry is valid while now is before
  it, a token with a not-before is valid from it on, and a token without them is not
  bounded. The token returned without an error is marked valid.
\<close>

record Token =
  token_Claims :: Claims
  token_Valid :: bool

definition ParseWithClaims :: "gostring \<Rightarrow> (alg \<Rightarrow> error + bytes) \<Rightarrow> world
    \<Rightarrow> (error + Token) \<times> world" where
  "ParseWithClaims tokenStr kf w =
     (case tokenStr of
        [Tok (JWS a c sg)] \<Rightarrow>
          (case kf a of
             Inl err \<Rightarrow> (Inl (Wrap ''token is unverifiable'' err), w)
           | Inr key \<Rightarrow>
               if sg \<noteq> MAC key then (Inl (ErrorNew ''signature is invalid''), w)
               else (case time_Now w of (now, w1) \<Rightarrow>
                 if (case claims_ExpiresAt c of None \<Rightarrow> False | Some exp \<Rightarrow> \<not> Before now exp)
                 then (Inl (ErrorNew ''token is expired''), w1)
                 else if (case claims_NotBefore c of None \<Rightarrow> False | Some nbf \<Rightarrow> Before now nbf)
                 then (Inl (ErrorNew ''token is not valid yet''), w1)
                 else (Inr \<lparr>token_Claims = c, token_Valid = True\<rparr>, w1)))
      | _ \<Rightarrow> (Inl (ErrorNew ''token is malformed''), w))"

text \<open>
  \<^verbatim>\<open>parse\<close>. The type assertion of the claims to \<^verbatim>\<open>*Claims\<close> cannot fail, since
  that is the type handed to the library; the validity flag is checked as in the
  source.
\<close>

definition parse :: "Manager \<Rightarrow> gostring \<Rightarrow> bytes \<Rightarrow> TokenType \<Rightarrow> world
    \<Rightarrow> (error + Claims) \<times> world" where
  "parse m tokenStr secret expectedType w =
     (case ParseWithClaims tokenStr (keyFunc secret) w of
        (Inl err, w1) \<Rightarrow> (Inl (Wrap ''parse token'' err), w1)
      | (Inr token, w1) \<Rightarrow>
          (let claims = token_Claims token in
           if \<not> token_Valid token then (Inl (ErrorNew ''invalid token claims''), w1)
           else if claims_TokenType claims \<noteq> expectedType
           then (Inl (ErrorNew ''invalid token type''), w1)
           else (Inr claims, w1)))"

definition ParseAccessToken :: "Manager \<Rightarrow> gostring \<Rightarrow> world \<Rightarrow> (error + Claims) \<times> world" where
  "ParseAccessToken m tokenStr w = parse m tokenStr (accessSecret m) AccessToken w"

definition ParseRefreshToken :: "Manager \<Rightarrow> gostring \<Rightarrow> world \<Rightarrow> (error + Claims) \<times> world" where
  "ParseRefreshToken m tokenStr w = parse m tokenStr (refreshSecret m) RefreshToken w"

subsection \<open>internal/repository\<close>

text \<open>
  One SQL statement is one step of the database. \<^verbatim>\<open>GetContext\<close> scans the first
  row of the result and returns \<^verbatim>\<open>sql.ErrNoRows\<close> when there is none;
  \<^verbatim>\<open>ExecContext\<close> of a DELETE removes the matching rows, and removing none is no
  error. The constraints of \<^verbatim>\<open>schema.sql\<close> that an INSERT can violate are the
  primary keys, \<^verbatim>\<open>users.email UNIQUE\<close>, \<^verbatim>\<open>refresh_tokens.token UNIQUE\<close>
  (SQLSTATE 23505) and the foreign key \<^verbatim>\<open>refresh_tokens.user_id\<close> (23503).
\<close>

definition GetContext :: "'r list \<Rightarrow> ('r \<Rightarrow> bool) \<Rightarrow> world \<Rightarrow> (error + 'r) \<times> world" where
  "GetContext table sel w =
     (case db_statement w of (failed, w1) \<Rightarrow>
        if failed then (Inl ErrDriver, w1)
        else (case find sel table of
                None \<Rightarrow> (Inl ErrNoRows, w1)
              | Some row \<Rightarrow> (Inr row, w1)))"

definition mapDBError :: "error \<Rightarrow> error" where
  "mapDBError err =
     (case err of
        PqError code \<Rightarrow>
          if code = ''23505'' then ErrAlreadyExists
          else if code = ''23503'' then ErrNotFound
          else err
      | _ \<Rightarrow> err)"

definition userRepository_Create :: "User \<Rightarrow> world \<Rightarrow> error option \<times> world" where
  "userRepository_Create user w =
     (case db_statement w of (failed, w1) \<Rightarrow>
        if failed then (Some (Wrap ''userRepository.Create'' (mapDBError ErrDriver)), w1)
        else if list_ex (\<lambda>u. user_ID u = user_ID user \<or> user_Email u = user_Email user) (users w1)
        then (Some (Wrap ''userRepository.Create'' (mapDBError (PqError ''23505''))), w1)
        else (None, w1\<lparr>users := users w1 @ [user]\<rparr>))"

definition userRepository_FindByID :: "uuid \<Rightarrow> world \<Rightarrow> (error + User) \<times> world" where
  "userRepository_FindByID id' w =
     (case GetContext (users w) (\<lambda>u. user_ID u = id' \<and> user_DeletedAt u = None) w of
        (Inl err, w1) \<Rightarrow>
          if errors_Is err ErrNoRows then (Inl ErrNotFound, w1)
          else (Inl (Wrap ''userRepository.FindByID'' err), w1)
      | (Inr user, w1) \<Rightarrow> (Inr user, w1))"

definition userRepository_FindByEmail :: "string \<Rightarrow> world \<Rightarrow> (error + User) \<times> world" where
  "userRepository_FindByEmail email w =
     (case GetContext (users w) (\<lambda>u. user_Email u = email \<and> user_DeletedAt u = None) w of
        (Inl err, w1) \<Rightarrow>
          if errors_Is err ErrNoRows then (Inl ErrNotFound, w1)
          else (Inl (Wrap ''userRepository.FindByEmail'' err), w1)
      | (Inr user, w1) \<Rightarrow> (Inr user, w1))"

definition refreshTokenRepository_Create :: "RefreshTokenRow \<Rightarrow> world \<Rightarrow> error option \<times> world" where
  "refreshTokenRepository_Create token w =
     (case db_statement w of (failed, w1) \<Rightarrow>
        if failed then (Some (Wrap ''refreshTokenRepository.Create'' ErrDriver), w1)
        else if list_ex (\<lambda>r. rt_ID r = rt_ID token \<or> rt_Token r = rt_Token token)
                  (refresh_tokens w1)
        then (Some (Wrap ''refreshTokenRepository.Create'' (PqError ''23505'')), w1)
        else if list_ex (\<lambda>u. user_ID u = rt_UserID token) (users w1)
        then (None, w1\<lparr>refresh_tokens := refresh_tokens w1 @ [token]\<rparr>)
        else (Some (Wrap ''refreshTokenRepository.Create'' (PqError ''23503'')), w1))"

definition refreshTokenRepository_FindByToken :: "gostring \<Rightarrow> world
    \<Rightarrow> (error + RefreshTokenRow) \<times> world" where
  "refreshTokenRepository_FindByToken token w =
     (case GetContext (refresh_tokens w) (\<lambda>r. rt_Token r = token) w of
        (Inl err, w1) \<Rightarrow>
          if errors_Is err ErrNoRows then (Inl ErrNotFound, w1)
          else (Inl (Wrap ''refreshTokenRepository.FindByToken'' err), w1)
      | (Inr rt, w1) \<Rightarrow> (Inr rt, w1))"

definition refreshTokenRepository_DeleteByToken :: "gostring \<Rightarrow> world \<Rightarrow> error option \<times> world" where
  "refreshTokenRepository_DeleteByToken token w =
     (case db_statement w of (failed, w1) \<Rightarrow>
        if failed then (Some (Wrap ''refreshTokenRepository.DeleteByToken'' ErrDriver), w1)
        else (None, w1\<lparr>refresh_tokens := filter (\<lambda>r. rt_Token r \<noteq> token) (refresh_tokens w1)\<rparr>))"

definition refreshTokenRepository_DeleteByUserID :: "uuid \<Rightarrow> world \<Rightarrow> error option \<times> world" where
  "refreshTokenRepository_DeleteByUserID userID w =
     (case db_statement w of (failed, w1) \<Rightarrow>
        if failed then (Some (Wrap ''refreshTokenRepository.DeleteByUserID'' ErrDriver), w1)
        else (None, w1\<lparr>refresh_tokens := filter (\<lambda>r. rt_UserID r \<noteq> userID) (refresh_tokens w1)\<rparr>))"

subsection \<open>pkg/hash\<close>

text \<open>
  bcrypt is linked code: the two functions the package calls are inputs of the model.
  \<open>CompareHashAndPassword b hashed plain\<close> is \<open>None\<close> on a match.
\<close>

record bcrypt =
  GenerateFromPassword :: "string \<Rightarrow> error + string"
  CompareHashAndPassword :: "string \<Rightarrow> string \<Rightarrow> error option"

definition Password :: "bcrypt \<Rightarrow> string \<Rightarrow> error + string" where
  "Password b plain =
     (case GenerateFromPassword b plain of
        Inl err \<Rightarrow> Inl (Wrap ''bcrypt'' err)
      | Inr hashed \<Rightarrow> Inr hashed)"

definition CheckPassword :: "bcrypt \<Rightarrow> string \<Rightarrow> string \<Rightarrow> error option" where
  "CheckPassword b plain hashed = CompareHashAndPassword b hashed plain"

subsection \<open>The authentication service\<close>

record RegisterRequest =
  reg_Name :: string
  reg_Email :: string
  reg_Password :: string

record LoginRequest =
  login_Email :: string
  login_Password :: string
  login_DeviceID :: string

record RefreshTokenRequest =
  refresh_RefreshToken :: gostring
  refresh_DeviceID :: string

record AuthResponse =
  resp_AccessToken :: gostring
  resp_RefreshToken :: gostring
  resp_User :: User

text \<open>
  The repositories of the service are the tables of the world; its logger has no
  effect on any result and is left out.
\<close>

record AuthService =
  jwtManager :: Manager
  hasher :: bcrypt

definition buildAuthResponse :: "AuthService \<Rightarrow> User \<Rightarrow> string \<Rightarrow> world
    \<Rightarrow> (error + AuthResponse) \<times> world" where
  "buildAuthResponse s user deviceID w =
     (case GenerateAccessToken (jwtManager s) (user_ID user) w of
        (Inl err, w1) \<Rightarrow> (Inl (Wrap ''generate access token'' err), w1)
      | (Inr accessToken, w1) \<Rightarrow>
     (case GenerateRefreshToken (jwtManager s) (user_ID user) w1 of
        (Inl err, w2) \<Rightarrow> (Inl (Wrap ''generate refresh token'' err), w2)
      | (Inr refreshTokenStr, w2) \<Rightarrow>
     (case uuid_New w2 of (id', w3) \<Rightarrow>
      case time_Now w3 of (now1, w4) \<Rightarrow>
      case time_Now w4 of (now2, w5) \<Rightarrow>
      (let rt = \<lparr>rt_ID = id', rt_UserID = user_ID user, rt_Token = refreshTokenStr,
                 rt_DeviceID = deviceID, rt_UserAgent = '''',
                 rt_ExpiresAt = now1 + 7 * 24 * Hour, rt_CreatedAt = now2\<rparr>
       in case refreshTokenRepository_Create rt w5 of
            (Some err, w6) \<Rightarrow> (Inl (Wrap ''store refresh token'' err), w6)
          | (None, w6) \<Rightarrow>
              (Inr \<lparr>resp_AccessToken = accessToken, resp_RefreshToken = refreshTokenStr,
                    resp_User = user\<rparr>, w6)))))"

definition Register :: "AuthService \<Rightarrow> RegisterRequest \<Rightarrow> world
    \<Rightarrow> (error + AuthResponse) \<times> world" where
  "Register s req w =
     (case userRepository_FindByEmail (reg_Email req) w of
        (Inr existing, w1) \<Rightarrow> (Inl ErrAlreadyExists, w1)
      | (Inl err, w1) \<Rightarrow>
          if err \<noteq> ErrNotFound
          then (Inl (Wrap ''authService.Register FindByEmail'' err), w1)
          else (case Password (hasher s) (reg_Password req) of
                  Inl err \<Rightarrow> (Inl (Wrap ''authService.Register hash password'' err), w1)
                | Inr passwordHash \<Rightarrow>
                    (case time_Now w1 of (now, w2) \<Rightarrow>
                     case uuid_New w2 of (id', w3) \<Rightarrow>
                     (let user = \<lparr>user_ID = id', user_Name = reg_Name req,
                                   user_Email = reg_Email req, user_Password = passwordHash,
                                   user_CreatedAt = now, user_UpdatedAt = now,
                                   user_DeletedAt = None\<rparr>
                      in case userRepository_Create user w3 of
                           (Some err, w4) \<Rightarrow>
                             (Inl (Wrap ''authService.Register create user'' err), w4)
                         | (None, w4) \<Rightarrow> buildAuthResponse s user ''register-device'' w4))))"

definition Login :: "AuthService \<Rightarrow> LoginRequest \<Rightarrow> gostring \<Rightarrow> world
    \<Rightarrow> (error + AuthResponse) \<times> world" where
  "Login s req userAgent w =
     (case userRepository_FindByEmail (login_Email req) w of
        (Inl err, w1) \<Rightarrow>
          if err = ErrNotFound then (Inl ErrInvalidCredentials, w1)
          else (Inl (Wrap ''authService.Login FindByEmail'' err), w1)
      | (Inr user, w1) \<Rightarrow>
          (case CheckPassword (hasher s) (login_Password req) (user_Password user) of
             Some err \<Rightarrow> (Inl ErrInvalidCredentials, w1)
           | None \<Rightarrow> buildAuthResponse s user (login_DeviceID req) w1))"

definition RefreshTokens :: "AuthService \<Rightarrow> RefreshTokenRequest \<Rightarrow> world
    \<Rightarrow> (error + AuthResponse) \<times> world" where
  "RefreshTokens s req w =
     (case ParseRefreshToken (jwtManager s) (refresh_RefreshToken req) w of
        (Inl err, w1) \<Rightarrow> (Inl ErrTokenInvalid, w1)
      | (Inr claims, w1) \<Rightarrow>
     (case refreshTokenRepository_FindByToken (refresh_RefreshToken req) w1 of
        (Inl err, w2) \<Rightarrow> (Inl ErrTokenInvalid, w2)
      | (Inr storedToken, w2) \<Rightarrow>
     (case time_Now w2 of (now, w3) \<Rightarrow>
        if Before (rt_ExpiresAt storedToken) now
        then (case refreshTokenRepository_DeleteByToken (refresh_RefreshToken req) w3 of
                (ignored, w4) \<Rightarrow> (Inl ErrTokenExpired, w4))
        else
     (case refreshTokenRepository_DeleteByToken (refresh_RefreshToken req) w3 of
        (Some err, w4) \<Rightarrow> (Inl (Wrap ''authService.RefreshTokens delete old'' err), w4)
      | (None, w4) \<Rightarrow>
     (case userRepository_FindByID (claims_UserID claims) w4 of
        (Inl err, w5) \<Rightarrow> (Inl (Wrap ''authService.RefreshTokens FindByID'' err), w5)
      | (Inr user, w5) \<Rightarrow> buildAuthResponse s user (refresh_DeviceID req) w5)))))"

definition Logout :: "AuthService \<Rightarrow> uuid \<Rightarrow> gostring \<Rightarrow> bool \<Rightarrow> world \<Rightarrow> error option \<times> world" where
  "Logout s userID refreshToken allDevices w =
     (if allDevices then refreshTokenRepository_DeleteByUserID userID w
      else refreshTokenRepository_DeleteByToken refreshToken w)"

subsection \<open>pkg/response and the request context\<close>

record ValidationError =
  ve_Field :: string
  ve_Message :: string

datatype payload = AuthData AuthResponse | MessageData string

record ErrorBody =
  err_Code :: string
  err_Message :: string
  err_Details :: "ValidationError list"

record Envelope =
  env_Success :: bool
  env_Data :: "payload option"
  env_Error :: "ErrorBody option"

text \<open>
  What the code uses of a \<^verbatim>\<open>gin.Context\<close>: the request headers
  (\<^verbatim>\<open>GetHeader\<close> gives the empty string for an absent header), the keys set for
  the handlers downstream, the response written, and whether the chain was aborted.
\<close>

record Context =
  Header :: "string \<Rightarrow> gostring"
  Keys :: "string \<rightharpoonup> uuid"
  Written :: "(nat \<times> Envelope) option"
  Aborted :: bool

definition GetHeader :: "Context \<Rightarrow> string \<Rightarrow> gostring" where
  "GetHeader c key = Header c key"

definition JSON :: "Context \<Rightarrow> nat \<Rightarrow> Envelope \<Rightarrow> Context" where
  "JSON c code obj = c\<lparr>Written := Some (code, obj)\<rparr>"

definition Abort :: "Context \<Rightarrow> Context" where
  "Abort c = c\<lparr>Aborted := True\<rparr>"

definition Set :: "Context \<Rightarrow> string \<Rightarrow> uuid \<Rightarrow> Context" where
  "Set c key v = c\<lparr>Keys := (Keys c)(key \<mapsto> v)\<rparr>"

definition StatusOK :: nat where
  "StatusOK = 200"

definition StatusUnauthorized :: nat where
  "StatusUnauthorized = 401"

definition StatusUnprocessableEntity :: nat where
  "StatusUnprocessableEntity = 422"

definition StatusInternalServerError :: nat where
  "StatusInternalServerError = 500"

definition OK :: "Context \<Rightarrow> payload \<Rightarrow> Context" where
  "OK c data = JSON c StatusOK \<lparr>env_Success = True, env_Data = Some data, env_Error = None\<rparr>"

definition Unauthorized :: "Context \<Rightarrow> string \<Rightarrow> Context" where
  "Unauthorized c msg =
     JSON c StatusUnauthorized
       \<lparr>env_Success = False, env_Data = None,
        env_Error = Some \<lparr>err_Code = ''UNAUTHORIZED'', err_Message = msg, err_Details = []\<rparr>\<rparr>"

definition UnprocessableEntity :: "Context \<Rightarrow> ValidationError list \<Rightarrow> Context" where
  "UnprocessableEntity c details =
     JSON c StatusUnprocessableEntity
       \<lparr>env_Success = False, env_Data = None,
        env_Error = Some \<lparr>err_Code = ''VALIDATION_ERROR'',
                          err_Message = ''request validation failed'',
                          err_Details = details\<rparr>\<rparr>"

definition InternalError :: "Context \<Rightarrow> Context" where
  "InternalError c =
     JSON c StatusInternalServerError
       \<lparr>env_Success = False, env_Data = None,
        env_Error = Some \<lparr>err_Code = ''INTERNAL_ERROR'',
                          err_Message = ''an internal server error occurred'',
                          err_Details = []\<rparr>\<rparr>"

subsection \<open>internal/middleware: the request gate\<close>

text \<open>
  \<^verbatim>\<open>strings.SplitN(s, sep, n)\<close> for a separator of one symbol: at most \<open>n\<close>
  pieces, the last one the unsplit rest.
\<close>

fun SplitN :: "gostring \<Rightarrow> sym \<Rightarrow> nat \<Rightarrow> gostring list" where
  "SplitN s sep 0 = []"
| "SplitN s sep (Suc 0) = [s]"
| "SplitN s sep (Suc (Suc n)) =
     (if sep \<in> set s
      then takeWhile (\<lambda>c. c \<noteq> sep) s # SplitN (tl (dropWhile (\<lambda>c. c \<noteq> sep) s)) sep (Suc n)
      else [s])"

text \<open>
  \<^verbatim>\<open>strings.EqualFold\<close> compares under Unicode simple case folding. Against a word
  of ASCII letters other than k and s, such as \<^verbatim>\<open>bearer\<close>, that is equality after
  lowering the ASCII capitals; a token symbol folds to itself.
\<close>

definition toLower :: "char \<Rightarrow> char" where
  "toLower c =
     (if 65 \<le> (of_char c :: nat) \<and> (of_char c :: nat) \<le> 90
      then char_of ((of_char c :: nat) + 32) else c)"

fun foldSym :: "sym \<Rightarrow> sym" where
  "foldSym (Chr c) = Chr (toLower c)"
| "foldSym (Tok t) = Tok t"

definition EqualFold :: "gostring \<Rightarrow> gostring \<Rightarrow> bool" where
  "EqualFold s t = (map foldSym s = map foldSym t)"

definition userIDKey :: string where
  "userIDKey = ''user_id''"

text \<open>
  \<^verbatim>\<open>Auth\<close>: the result is the context as the middleware leaves it. When it is not
  aborted, \<^verbatim>\<open>c.Next()\<close> runs the handlers behind the gate on it.
\<close>

definition Auth :: "Manager \<Rightarrow> Context \<Rightarrow> world \<Rightarrow> Context \<times> world" where
  "Auth jwtManager' c w =
     (let authHeader = GetHeader c ''Authorization'' in
      if authHeader = []
      then (Abort (Unauthorized c ''missing authorization header''), w)
      else
        (let parts = SplitN authHeader (Chr CHR '' '') 2 in
         if length parts \<noteq> 2 \<or> \<not> EqualFold (parts ! 0) (str ''bearer'')
         then (Abort (Unauthorized c ''invalid authorization header format''), w)
         else
           (case ParseAccessToken jwtManager' (parts ! 1) w of
              (Inl err, w1) \<Rightarrow> (Abort (Unauthorized c ''invalid or expired access token''), w1)
            | (Inr claims, w1) \<Rightarrow> (Set c userIDKey (claims_UserID claims), w1))))"

text \<open>\<^verbatim>\<open>CurrentUserID\<close> panics when the key is not set: \<open>None\<close>.\<close>

definition CurrentUserID :: "Context \<Rightarrow> uuid option" where
  "CurrentUserID c = Keys c userIDKey"

subsection \<open>internal/handler: login\<close>

text \<open>
  \<^verbatim>\<open>validator.BindAndValidate\<close> decodes and validates the body; its three outcomes
  are an input of the handler.
\<close>

datatype 'a binding = BindFailed error | Invalid "ValidationError list" | Bound 'a

definition AuthHandler_Login :: "AuthService \<Rightarrow> LoginRequest binding \<Rightarrow> Context \<Rightarrow> world
    \<Rightarrow> Context \<times> world" where
  "AuthHandler_Login authSvc body c w =
     (case body of
        BindFailed err \<Rightarrow> (InternalError c, w)
      | Invalid errs \<Rightarrow> (UnprocessableEntity c errs, w)
      | Bound req \<Rightarrow>
          (case Login authSvc req (GetHeader c ''User-Agent'') w of
             (Inl err, w1) \<Rightarrow>
               (if errors_Is err ErrInvalidCredentials
                then (Unauthorized c ''invalid email or password'', w1)
                else (InternalError c, w1))
           | (Inr authResp, w1) \<Rightarrow> (OK c (AuthData authResp), w1)))"

section \<open>Notions used in the statements\<close>

text \<open>
  The outward signal \<open>Unauthorized\<close> of the request gate, from context \<open>c\<close> to
  context \<open>c'\<close>: the chain is aborted, the response is a 401 with the error code
  \<^verbatim>\<open>UNAUTHORIZED\<close>, and no identity has been bound.
\<close>

definition isUnauthorized :: "Context \<Rightarrow> Context \<Rightarrow> bool" where
  "isUnauthorized c c' =
     (Aborted c' \<and> Keys c' userIDKey = Keys c userIDKey \<and>
      (case Written c' of
         None \<Rightarrow> False
       | Some (code, env) \<Rightarrow>
           code = StatusUnauthorized \<and>
           (case env_Error env of
              None \<Rightarrow> False
            | Some e \<Rightarrow> err_Code e = ''UNAUTHORIZED'')))"

text \<open>A session record for the refresh-token string exists in the store.\<close>

definition has_session :: "world \<Rightarrow> gostring \<Rightarrow> bool" where
  "has_session w token = list_ex (\<lambda>r. rt_Token r = token) (refresh_tokens w)"

text \<open>The record and the two tokens that the issue sub-flow makes in world \<open>w\<close>.\<close>

definition issued_access :: "AuthService \<Rightarrow> User \<Rightarrow> world \<Rightarrow> gostring" where
  "issued_access s user w =
     [Tok (JWS HS256
        \<lparr>claims_UserID = user_ID user, claims_TokenType = AccessToken,
         claims_IssuedAt = Some (NewNumericDate (clock w (reads w))),
         claims_ExpiresAt = Some (NewNumericDate (clock w (reads w) + accessTTL (jwtManager s))),
         claims_NotBefore = None,
         claims_ID = uuid_String (uuid_src w (uuid_ctr w))\<rparr>
        (MAC (accessSecret (jwtManager s))))]"

definition issued_refresh :: "AuthService \<Rightarrow> User \<Rightarrow> world \<Rightarrow> gostring" where
  "issued_refresh s user w =
     [Tok (JWS HS256
        \<lparr>claims_UserID = user_ID user, claims_TokenType = RefreshToken,
         claims_IssuedAt = Some (NewNumericDate (clock w (Suc (reads w)))),
         claims_ExpiresAt =
           Some (NewNumericDate (clock w (Suc (reads w)) + refreshTTL (jwtManager s))),
         claims_NotBefore = None,
         claims_ID = uuid_String (uuid_src w (Suc (uuid_ctr w)))\<rparr>
        (MAC (refreshSecret (jwtManager s))))]"

definition issued_record :: "AuthService \<Rightarrow> User \<Rightarrow> string \<Rightarrow> world \<Rightarrow> RefreshTokenRow" where
  "issued_record s user deviceID w =
     \<lparr>rt_ID = uuid_src w (uuid_ctr w + 2), rt_UserID = user_ID user,
      rt_Token = issued_refresh s user w, rt_DeviceID = deviceID, rt_UserAgent = '''',
      rt_ExpiresAt = clock w (reads w + 2) + 7 * 24 * Hour,
      rt_CreatedAt = clock w (reads w + 3)\<rparr>"

text \<open>
  The world in which a refresh runs its issue sub-flow: two clock readings and three
  statements later, and without the rows of the presented token.
\<close>

definition rotated :: "world \<Rightarrow> gostring \<Rightarrow> world" where
  "rotated w token =
     w\<lparr>reads := Suc (Suc (reads w)),
       refresh_tokens := filter (\<lambda>r. rt_Token r \<noteq> token) (refresh_tokens w),
       stmts := Suc (Suc (Suc (stmts w)))\<rparr>"

text \<open>
  The errors of \<^verbatim>\<open>RefreshTokens\<close> that are raised after its rotation delete: the
  wrapped errors of the user lookup and of the issue sub-flow.
\<close>

definition failed_after_rotation :: "error \<Rightarrow> bool" where
  "failed_after_rotation e =
     (case e of
        Wrap p cause \<Rightarrow>
          p = ''authService.RefreshTokens FindByID'' \<or> p = ''generate access token'' \<or>
          p = ''generate refresh token'' \<or> p = ''store refresh token''
      | _ \<Rightarrow> False)"

text \<open>The expires-at claim that a token string carries.\<close>

definition token_expiry :: "gostring \<Rightarrow> time option" where
  "token_expiry tokenStr =
     (case tokenStr of
        [Tok (JWS a c sg)] \<Rightarrow> claims_ExpiresAt c
      | _ \<Rightarrow> None)"

section \<open>Example inputs\<close>

definition alice :: User where
  "alice = \<lparr>user_ID = ''u-alice'', user_Name = ''Alice'', user_Email = ''a@x.com'',
            user_Password = ''hash(longenough1)'', user_CreatedAt = 0, user_UpdatedAt = 0,
            user_DeletedAt = None\<rparr>"

definition example_manager :: Manager where
  "example_manager = New ''access-secret'' ''refresh-secret'' (15 * Minute) (7 * 24 * Hour)"

text \<open>
  A database holding Alice and no session, a driver that never fails, a clock that
  starts at 1000 s and advances by a millisecond per reading, and a UUID source
  that gives \<^verbatim>\<open>#\<close>, \<^verbatim>\<open>##\<close>, \<^verbatim>\<open>###\<close>, ...
\<close>

definition example_world :: world where
  "example_world =
     \<lparr>users = [alice], refresh_tokens = [], fault_at = (\<lambda>n. False), stmts = 0,
      clock = (\<lambda>n. 1000 * Second + 1000000 * int n), reads = 0,
      uuid_src = (\<lambda>n. replicate (Suc n) CHR ''#''), uuid_ctr = 0\<rparr>"

definition empty_context :: Context where
  "empty_context = \<lparr>Header = (\<lambda>k. []), Keys = Map.empty, Written = None, Aborted = False\<rparr>"

definition with_Authorization :: "gostring \<Rightarrow> Context" where
  "with_Authorization h =
     empty_context\<lparr>Header := (\<lambda>k. if k = ''Authorization'' then h else [])\<rparr>"

text \<open>
  An access-shaped token made by hand and signed with the refresh secret of
  \<open>example_manager\<close>, and the access token the manager issues to Alice.
\<close>

definition forged_token :: gostring where
  "forged_token =
     [Tok (JWS HS256
        \<lparr>claims_UserID = ''u-alice'', claims_TokenType = AccessToken,
         claims_IssuedAt = Some (1000 * Second), claims_ExpiresAt = Some (1900 * Second),
         claims_NotBefore = None,
         claims_ID = ''jti''\<rparr>
        (MAC ''refresh-secret''))]"

definition alice_access_token :: gostring where
  "alice_access_token =
     (case fst (GenerateAccessToken example_manager ''u-alice'' example_world) of
        Inl err \<Rightarrow> [] | Inr tok \<Rightarrow> tok)"

text \<open>
  A hasher for the examples, a service over it, and a world in which Alice has one
  session on her laptop, with the refresh token of that session.
\<close>

definition example_bcrypt :: bcrypt where
  "example_bcrypt =
     \<lparr>GenerateFromPassword = (\<lambda>plain. Inr (''hash('' @ plain @ '')'')),
      CompareHashAndPassword =
        (\<lambda>hashed plain. if hashed = ''hash('' @ plain @ '')'' then None
                         else Some (ErrorNew ''hashedPassword is not the hash of the given password''))\<rparr>"

definition example_service :: AuthService where
  "example_service = \<lparr>jwtManager = example_manager, hasher = example_bcrypt\<rparr>"

definition alice_refresh_claims :: Claims where
  "alice_refresh_claims =
     \<lparr>claims_UserID = ''u-alice'', claims_TokenType = RefreshToken,
      claims_IssuedAt = Some (900 * Second), claims_ExpiresAt = Some (900 * Second + 168 * Hour),
      claims_NotBefore = None,
      claims_ID = ''jti-0''\<rparr>"

definition alice_refresh_token :: gostring where
  "alice_refresh_token = [Tok (JWS HS256 alice_refresh_claims (MAC ''refresh-secret''))]"

definition alice_session :: RefreshTokenRow where
  "alice_session =
     \<lparr>rt_ID = ''s-0'', rt_UserID = ''u-alice'', rt_Token = alice_refresh_token,
      rt_DeviceID = ''laptop'', rt_UserAgent = '''',
      rt_ExpiresAt = 900 * Second + 168 * Hour, rt_CreatedAt = 900 * Second\<rparr>"

definition session_world :: world where
  "session_world = example_world\<lparr>refresh_tokens := [alice_session]\<rparr>"

definition example_refresh :: RefreshTokenRequest where
  "example_refresh = \<lparr>refresh_RefreshToken = alice_refresh_token, refresh_DeviceID = ''laptop''\<rparr>"

text \<open>
  Variations of the session world: the record has expired while the token has not;
  the same with a driver that fails the second statement; Alice is soft-deleted.
\<close>

definition stale_session :: RefreshTokenRow where
  "stale_session = alice_session\<lparr>rt_ExpiresAt := 950 * Second\<rparr>"

definition stale_world :: world where
  "stale_world = example_world\<lparr>refresh_tokens := [stale_session]\<rparr>"

definition stale_faulty_world :: world where
  "stale_faulty_world = stale_world\<lparr>fault_at := (\<lambda>n. n = 1)\<rparr>"

definition orphan_world :: world where
  "orphan_world = session_world\<lparr>users := [alice\<lparr>user_DeletedAt := Some (950 * Second)\<rparr>]\<rparr>"

text \<open>The session world with a driver that fails the fourth statement.\<close>

definition store_fault_world :: world where
  "store_fault_world = session_world\<lparr>fault_at := (\<lambda>n. n = 3)\<rparr>"

text \<open>
  A driver that fails every statement; login and registration requests; a manager
  whose refresh TTL is one hour.
\<close>

definition faulty_world :: world where
  "faulty_world = session_world\<lparr>fault_at := (\<lambda>n. True)\<rparr>"

definition unknown_login :: LoginRequest where
  "unknown_login = \<lparr>login_Email = ''nobody@x.com'', login_Password = ''longenough1'',
                     login_DeviceID = ''laptop''\<rparr>"

definition wrong_password_login :: LoginRequest where
  "wrong_password_login = \<lparr>login_Email = ''a@x.com'', login_Password = ''not-the-password'',
                            login_DeviceID = ''laptop''\<rparr>"

definition alice_login :: LoginRequest where
  "alice_login = \<lparr>login_Email = ''a@x.com'', login_Password = ''longenough1'',
                   login_DeviceID = ''laptop''\<rparr>"

definition bob_register :: RegisterRequest where
  "bob_register = \<lparr>reg_Name = ''Bob'', reg_Email = ''b@x.com'', reg_Password = ''longenough2''\<rparr>"

definition short_manager :: Manager where
  "short_manager = New ''access-secret'' ''refresh-secret'' (15 * Minute) (1 * Hour)"

definition short_service :: AuthService where
  "short_service = \<lparr>jwtManager = short_manager, hasher = example_bcrypt\<rparr>"

section \<open>Properties\<close>

subsection \<open>The codec\<close>

lemma generate_result:
  "generate m uid k secret ttl w =
     (Inr [Tok (JWS HS256 \<lparr>claims_UserID = uid, claims_TokenType = k,
                           claims_IssuedAt = Some (NewNumericDate (clock w (reads w))),
                           claims_ExpiresAt = Some (NewNumericDate (clock w (reads w) + ttl)),
                           claims_NotBefore = None,
                           claims_ID = uuid_String (uuid_src w (uuid_ctr w))\<rparr> (MAC secret))],
      w\<lparr>reads := Suc (reads w), uuid_ctr := Suc (uuid_ctr w)\<rparr>)"
  by (simp add: generate_def time_Now_def uuid_New_def SignedString_def)

lemma parse_of_signed:
  "parse m [Tok (JWS HS256 c (MAC key))] secret expected w =
     (if key \<noteq> secret then (Inl (Wrap ''parse token'' (ErrorNew ''signature is invalid'')), w)
      else if (case claims_ExpiresAt c of None \<Rightarrow> False | Some e \<Rightarrow> \<not> clock w (reads w) < e)
      then (Inl (Wrap ''parse token'' (ErrorNew ''token is expired'')), w\<lparr>reads := Suc (reads w)\<rparr>)
      else if (case claims_NotBefore c of None \<Rightarrow> False | Some n \<Rightarrow> clock w (reads w) < n)
      then (Inl (Wrap ''parse token'' (ErrorNew ''token is not valid yet'')),
            w\<lparr>reads := Suc (reads w)\<rparr>)
      else if claims_TokenType c \<noteq> expected
      then (Inl (ErrorNew ''invalid token type''), w\<lparr>reads := Suc (reads w)\<rparr>)
      else (Inr c, w\<lparr>reads := Suc (reads w)\<rparr>))"
  by (auto simp: parse_def ParseWithClaims_def keyFunc_def time_Now_def Before_def
           split: option.splits)

lemma kinds_differ: "AccessToken \<noteq> RefreshToken"
  by (simp add: AccessToken_def RefreshToken_def)

text \<open>A successful parse fixes the shape of the string, its key, its kind and its expiry.\<close>

lemma parse_Inr:
  "parse m tokenStr secret expected w = (Inr c, w') \<Longrightarrow>
     (\<exists>a. tokenStr = [Tok (JWS a c (MAC secret))]) \<and>
     claims_TokenType c = expected \<and>
     (case claims_ExpiresAt c of None \<Rightarrow> True | Some e \<Rightarrow> clock w (reads w) < e) \<and>
     (case claims_NotBefore c of None \<Rightarrow> True | Some n \<Rightarrow> \<not> clock w (reads w) < n) \<and>
     w' = w\<lparr>reads := Suc (reads w)\<rparr>"
  by (auto simp: parse_def ParseWithClaims_def keyFunc_def time_Now_def Before_def
           split: option.splits list.splits sym.splits jws.splits alg.splits sum.splits
                  if_splits prod.splits)

lemma parse_wrong_signature:
  "sg \<noteq> MAC secret \<Longrightarrow> \<exists>e. parse m [Tok (JWS a c sg)] secret expected w = (Inl e, w)"
  by (auto simp: parse_def ParseWithClaims_def keyFunc_def split: alg.splits)

lemma parse_wrong_kind:
  "claims_TokenType c \<noteq> expected \<Longrightarrow>
     \<exists>e w'. parse m [Tok (JWS a c sg)] secret expected w = (Inl e, w')"
  by (auto simp: parse_def ParseWithClaims_def keyFunc_def time_Now_def
           split: alg.splits option.splits)

lemma parse_expired:
  "claims_ExpiresAt c = Some e \<Longrightarrow> \<not> Before (fst (time_Now w)) e \<Longrightarrow>
     \<exists>e w'. parse m [Tok (JWS a c sg)] secret expected w = (Inl e, w')"
  by (auto simp: parse_def ParseWithClaims_def keyFunc_def time_Now_def
           split: alg.splits option.splits)

subsection \<open>The request gate\<close>

lemma SplitN_2:
  "SplitN s sep 2 =
     (if sep \<in> set s then [takeWhile (\<lambda>c. c \<noteq> sep) s, tl (dropWhile (\<lambda>c. c \<noteq> sep) s)]
      else [s])"
  by (simp add: numeral_2_eq_2)

lemma takeWhile_upto_sep:
  "sep \<notin> set scheme \<Longrightarrow> takeWhile (\<lambda>c. c \<noteq> sep) (scheme @ sep # v) = scheme"
  by (induction scheme) auto

lemma dropWhile_upto_sep:
  "sep \<notin> set scheme \<Longrightarrow> dropWhile (\<lambda>c. c \<noteq> sep) (scheme @ sep # v) = sep # v"
  by (induction scheme) auto

lemma SplitN_2_pair:
  "sep \<notin> set scheme \<Longrightarrow> SplitN (scheme @ sep # v) sep 2 = [scheme, v]"
  by (simp add: SplitN_2 takeWhile_upto_sep dropWhile_upto_sep)

lemma isUnauthorized_Abort: "isUnauthorized c (Abort (Unauthorized c msg))"
  by (simp add: isUnauthorized_def Abort_def Unauthorized_def JSON_def)

lemma Auth_missing:
  "GetHeader c ''Authorization'' = [] \<Longrightarrow>
     Auth m c w = (Abort (Unauthorized c ''missing authorization header''), w)"
  by (simp add: Auth_def)

lemma Auth_no_pair:
  "Chr CHR '' '' \<notin> set (GetHeader c ''Authorization'') \<Longrightarrow>
     \<exists>msg. Auth m c w = (Abort (Unauthorized c msg), w)"
  by (auto simp: Auth_def SplitN_2 Let_def)

lemma Auth_pair:
  "GetHeader c ''Authorization'' = scheme @ Chr CHR '' '' # v \<Longrightarrow>
   Chr CHR '' '' \<notin> set scheme \<Longrightarrow>
   Auth m c w =
     (if \<not> EqualFold scheme (str ''bearer'')
      then (Abort (Unauthorized c ''invalid authorization header format''), w)
      else (case ParseAccessToken m v w of
              (Inl err, w1) \<Rightarrow> (Abort (Unauthorized c ''invalid or expired access token''), w1)
            | (Inr claims, w1) \<Rightarrow> (Set c userIDKey (claims_UserID claims), w1)))"
  by (simp add: Auth_def SplitN_2_pair Let_def)


lemma GetHeader_with_Authorization [simp]:
  "GetHeader (with_Authorization h) ''Authorization'' = h"
  by (simp add: with_Authorization_def GetHeader_def)

lemma alice_access_token_eq:
  "alice_access_token =
     [Tok (JWS HS256
        \<lparr>claims_UserID = ''u-alice'', claims_TokenType = AccessToken,
         claims_IssuedAt = Some (1000 * Second), claims_ExpiresAt = Some (1900 * Second),
         claims_NotBefore = None,
         claims_ID = ''#''\<rparr>
        (MAC ''access-secret''))]"
  by (simp add: alice_access_token_def GenerateAccessToken_def generate_result
        example_manager_def New_def example_world_def NewNumericDate_def uuid_String_def
        Second_def Minute_def)

lemma alice_access_token_parses:
  "ParseAccessToken example_manager alice_access_token example_world =
     (Inr \<lparr>claims_UserID = ''u-alice'', claims_TokenType = AccessToken,
           claims_IssuedAt = Some (1000 * Second), claims_ExpiresAt = Some (1900 * Second),
           claims_NotBefore = None,
           claims_ID = ''#''\<rparr>, example_world\<lparr>reads := 1\<rparr>)"
  by (simp add: alice_access_token_eq ParseAccessToken_def parse_of_signed
        example_manager_def New_def example_world_def Second_def)

lemma bearer_folds: "EqualFold (str ''bEaReR'') (str ''bearer'')"
  by code_simp

lemma basic_does_not_fold: "\<not> EqualFold (str ''Basic'') (str ''bearer'')"
  by code_simp

lemma example_before_access:
  "Before (fst (time_Now example_world))
     (NewNumericDate (fst (time_Now example_world) + accessTTL example_manager))"
  by (simp add: Before_def time_Now_def example_world_def example_manager_def New_def
        NewNumericDate_def Second_def Minute_def)

lemma example_before_refresh:
  "Before (fst (time_Now example_world))
     (NewNumericDate (fst (time_Now example_world) + refreshTTL example_manager))"
  by (simp add: Before_def time_Now_def example_world_def example_manager_def New_def
        NewNumericDate_def Second_def Minute_def Hour_def)

subsection \<open>Round trip of issue and verify\<close>

text \<open>
  Claim C3. For every identity and both kinds, the token that the manager issues
  verifies under the same expected kind at every clock reading before the token's
  expires-at claim, and the claims returned carry the identity and the kind it was
  issued for. Issuing never fails.
\<close>

theorem issue_verify_roundtrip:
  "(\<exists>tok w1. GenerateAccessToken m uid w = (Inr tok, w1) \<and>
      (\<forall>w2. Before (fst (time_Now w2)) (NewNumericDate (fst (time_Now w) + accessTTL m)) \<longrightarrow>
         (\<exists>c w3. ParseAccessToken m tok w2 = (Inr c, w3) \<and>
              claims_UserID c = uid \<and> claims_TokenType c = AccessToken))) \<and>
   (\<exists>tok w1. GenerateRefreshToken m uid w = (Inr tok, w1) \<and>
      (\<forall>w2. Before (fst (time_Now w2)) (NewNumericDate (fst (time_Now w) + refreshTTL m)) \<longrightarrow>
         (\<exists>c w3. ParseRefreshToken m tok w2 = (Inr c, w3) \<and>
              claims_UserID c = uid \<and> claims_TokenType c = RefreshToken)))"
  by (simp add: GenerateAccessToken_def GenerateRefreshToken_def ParseAccessToken_def
        ParseRefreshToken_def generate_result parse_of_signed time_Now_def Before_def)

theorem issue_verify_roundtrip_witness:
  "Before (fst (time_Now example_world))
     (NewNumericDate (fst (time_Now example_world) + accessTTL example_manager)) \<and>
   Before (fst (time_Now example_world))
     (NewNumericDate (fst (time_Now example_world) + refreshTTL example_manager)) \<and>
   (\<exists>tok w1 c w3. GenerateAccessToken example_manager ''u-alice'' example_world = (Inr tok, w1) \<and>
      ParseAccessToken example_manager tok example_world = (Inr c, w3) \<and>
      claims_UserID c = ''u-alice'' \<and> claims_TokenType c = AccessToken) \<and>
   (\<exists>tok w1 c w3. GenerateRefreshToken example_manager ''u-alice'' example_world = (Inr tok, w1) \<and>
      ParseRefreshToken example_manager tok example_world = (Inr c, w3) \<and>
      claims_UserID c = ''u-alice'' \<and> claims_TokenType c = RefreshToken)"
  using issue_verify_roundtrip [of example_manager "''u-alice''" example_world]
    example_before_access example_before_refresh
  by blast

subsection \<open>Separation of the two kinds\<close>

text \<open>
  Claim C4. A token issued as an access token never verifies as a refresh token and
  a token issued as a refresh token never verifies as an access token, whatever the
  clock reads and whatever the two secrets are. And when the two secrets differ, a
  request whose bearer credential is any token signed with the refresh secret,
  whatever its claims, is answered \<open>Unauthorized\<close> by the gate.
\<close>

theorem kind_separation:
  "(\<exists>tok w1. GenerateAccessToken m uid w = (Inr tok, w1) \<and>
      (\<forall>w2. \<exists>e w3. ParseRefreshToken m tok w2 = (Inl e, w3))) \<and>
   (\<exists>tok w1. GenerateRefreshToken m uid w = (Inr tok, w1) \<and>
      (\<forall>w2. \<exists>e w3. ParseAccessToken m tok w2 = (Inl e, w3))) \<and>
   (accessSecret m \<noteq> refreshSecret m \<longrightarrow>
      (\<forall>c scheme a cl.
         GetHeader c ''Authorization'' =
           scheme @ Chr CHR '' '' # [Tok (JWS a cl (MAC (refreshSecret m)))] \<and>
         Chr CHR '' '' \<notin> set scheme \<longrightarrow>
         isUnauthorized c (fst (Auth m c w))))"
proof (intro conjI)
  show "\<exists>tok w1. GenerateAccessToken m uid w = (Inr tok, w1) \<and>
      (\<forall>w2. \<exists>e w3. ParseRefreshToken m tok w2 = (Inl e, w3))"
    using kinds_differ
    by (simp add: GenerateAccessToken_def ParseRefreshToken_def generate_result parse_of_signed)
  show "\<exists>tok w1. GenerateRefreshToken m uid w = (Inr tok, w1) \<and>
      (\<forall>w2. \<exists>e w3. ParseAccessToken m tok w2 = (Inl e, w3))"
    using kinds_differ
    by (simp add: GenerateRefreshToken_def ParseAccessToken_def generate_result parse_of_signed)
  show "accessSecret m \<noteq> refreshSecret m \<longrightarrow>
      (\<forall>c scheme a cl.
         GetHeader c ''Authorization'' =
           scheme @ Chr CHR '' '' # [Tok (JWS a cl (MAC (refreshSecret m)))] \<and>
         Chr CHR '' '' \<notin> set scheme \<longrightarrow>
         isUnauthorized c (fst (Auth m c w)))"
  proof (intro impI allI, elim conjE)
    fix c scheme a cl
    assume secrets: "accessSecret m \<noteq> refreshSecret m"
      and hdr: "GetHeader c ''Authorization'' =
           scheme @ Chr CHR '' '' # [Tok (JWS a cl (MAC (refreshSecret m)))]"
      and sp: "Chr CHR '' '' \<notin> set scheme"
    from secrets have "MAC (refreshSecret m) \<noteq> MAC (accessSecret m)"
      by simp
    then obtain e where
      "ParseAccessToken m [Tok (JWS a cl (MAC (refreshSecret m)))] w = (Inl e, w)"
      unfolding ParseAccessToken_def using parse_wrong_signature by blast
    then show "isUnauthorized c (fst (Auth m c w))"
      by (simp add: Auth_pair [OF hdr sp] isUnauthorized_Abort)
  qed
qed

theorem kind_separation_witness:
  "accessSecret example_manager \<noteq> refreshSecret example_manager \<and>
   isUnauthorized (with_Authorization (str ''Bearer '' @ forged_token))
     (fst (Auth example_manager (with_Authorization (str ''Bearer '' @ forged_token))
        example_world))"
proof -
  have secrets: "accessSecret example_manager \<noteq> refreshSecret example_manager"
    by (simp add: example_manager_def New_def)
  have hdr: "GetHeader (with_Authorization (str ''Bearer '' @ forged_token)) ''Authorization'' =
      str ''Bearer'' @ Chr CHR '' '' #
        [Tok (JWS HS256
          \<lparr>claims_UserID = ''u-alice'', claims_TokenType = AccessToken,
           claims_IssuedAt = Some (1000 * Second), claims_ExpiresAt = Some (1900 * Second),
           claims_NotBefore = None,
           claims_ID = ''jti''\<rparr>
          (MAC (refreshSecret example_manager)))]"
    by (simp add: str_def forged_token_def example_manager_def New_def)
  have sp: "Chr CHR '' '' \<notin> set (str ''Bearer'')"
    by (simp add: str_def)
  from secrets hdr sp show ?thesis
    using kind_separation [of example_manager "''u-alice''" example_world]
    by blast
qed

subsection \<open>Every failure at the gate is Unauthorized\<close>

text \<open>
  Claim C7. The gate answers \<open>Unauthorized\<close> when the bearer header is absent, when it
  is not a scheme and a value separated by a space, when the scheme is not
  \<^verbatim>\<open>bearer\<close> in any capitalisation, and when the verification of the value as an
  access token fails for whatever reason, in particular for a bad signature, a wrong
  kind or a passed expiry. When the header is well formed and the token verifies, the
  gate binds the identity of the token's claims under the key that
  \<^verbatim>\<open>CurrentUserID\<close> reads. Under a bearer scheme, the response to a failed
  verification is the same whatever the error of the codec is.
\<close>

theorem gate_collapses_failures:
  "(GetHeader c ''Authorization'' = [] \<longrightarrow> isUnauthorized c (fst (Auth m c w))) \<and>
   (Chr CHR '' '' \<notin> set (GetHeader c ''Authorization'') \<longrightarrow>
      isUnauthorized c (fst (Auth m c w))) \<and>
   (\<forall>scheme v.
      GetHeader c ''Authorization'' = scheme @ Chr CHR '' '' # v \<and> Chr CHR '' '' \<notin> set scheme \<longrightarrow>
        (\<not> EqualFold scheme (str ''bearer'') \<longrightarrow> isUnauthorized c (fst (Auth m c w))) \<and>
        (\<forall>err w1. ParseAccessToken m v w = (Inl err, w1) \<longrightarrow>
           isUnauthorized c (fst (Auth m c w))) \<and>
        (\<forall>err w1. EqualFold scheme (str ''bearer'') \<and>
           ParseAccessToken m v w = (Inl err, w1) \<longrightarrow>
           Auth m c w = (Abort (Unauthorized c ''invalid or expired access token''), w1)) \<and>
        (\<forall>claims w1. EqualFold scheme (str ''bearer'') \<and>
           ParseAccessToken m v w = (Inr claims, w1) \<longrightarrow>
           Auth m c w = (Set c userIDKey (claims_UserID claims), w1) \<and>
           CurrentUserID (fst (Auth m c w)) = Some (claims_UserID claims))) \<and>
   (\<forall>scheme a cl sg.
      GetHeader c ''Authorization'' = scheme @ Chr CHR '' '' # [Tok (JWS a cl sg)] \<and>
      Chr CHR '' '' \<notin> set scheme \<and>
      (sg \<noteq> MAC (accessSecret m) \<or> claims_TokenType cl \<noteq> AccessToken \<or>
       (\<exists>e. claims_ExpiresAt cl = Some e \<and> \<not> Before (fst (time_Now w)) e)) \<longrightarrow>
      isUnauthorized c (fst (Auth m c w)))"
proof (intro conjI)
  show "GetHeader c ''Authorization'' = [] \<longrightarrow> isUnauthorized c (fst (Auth m c w))"
    by (simp add: Auth_missing isUnauthorized_Abort)
  show "Chr CHR '' '' \<notin> set (GetHeader c ''Authorization'') \<longrightarrow>
      isUnauthorized c (fst (Auth m c w))"
    using Auth_no_pair [of c m w] by (auto simp: isUnauthorized_Abort)
  show "\<forall>scheme v.
      GetHeader c ''Authorization'' = scheme @ Chr CHR '' '' # v \<and> Chr CHR '' '' \<notin> set scheme \<longrightarrow>
        (\<not> EqualFold scheme (str ''bearer'') \<longrightarrow> isUnauthorized c (fst (Auth m c w))) \<and>
        (\<forall>err w1. ParseAccessToken m v w = (Inl err, w1) \<longrightarrow>
           isUnauthorized c (fst (Auth m c w))) \<and>
        (\<forall>err w1. EqualFold scheme (str ''bearer'') \<and>
           ParseAccessToken m v w = (Inl err, w1) \<longrightarrow>
           Auth m c w = (Abort (Unauthorized c ''invalid or expired access token''), w1)) \<and>
        (\<forall>claims w1. EqualFold scheme (str ''bearer'') \<and>
           ParseAccessToken m v w = (Inr claims, w1) \<longrightarrow>
           Auth m c w = (Set c userIDKey (claims_UserID claims), w1) \<and>
           CurrentUserID (fst (Auth m c w)) = Some (claims_UserID claims))"
    by (auto simp: Auth_pair isUnauthorized_Abort CurrentUserID_def Set_def)
  show "\<forall>scheme a cl sg.
      GetHeader c ''Authorization'' = scheme @ Chr CHR '' '' # [Tok (JWS a cl sg)] \<and>
      Chr CHR '' '' \<notin> set scheme \<and>
      (sg \<noteq> MAC (accessSecret m) \<or> claims_TokenType cl \<noteq> AccessToken \<or>
       (\<exists>e. claims_ExpiresAt cl = Some e \<and> \<not> Before (fst (time_Now w)) e)) \<longrightarrow>
      isUnauthorized c (fst (Auth m c w))"
  proof (intro allI impI, elim conjE)
    fix scheme a cl sg
    assume hdr: "GetHeader c ''Authorization'' = scheme @ Chr CHR '' '' # [Tok (JWS a cl sg)]"
      and sp: "Chr CHR '' '' \<notin> set scheme"
      and bad: "sg \<noteq> MAC (accessSecret m) \<or> claims_TokenType cl \<noteq> AccessToken \<or>
         (\<exists>e. claims_ExpiresAt cl = Some e \<and> \<not> Before (fst (time_Now w)) e)"
    have "\<exists>err w1. parse m [Tok (JWS a cl sg)] (accessSecret m) AccessToken w = (Inl err, w1)"
      using bad
    proof (elim disjE exE conjE)
      assume "sg \<noteq> MAC (accessSecret m)"
      from parse_wrong_signature [OF this] show ?thesis by blast
    next
      assume "claims_TokenType cl \<noteq> AccessToken"
      from parse_wrong_kind [OF this] show ?thesis by blast
    next
      fix e
      assume "claims_ExpiresAt cl = Some e" and "\<not> Before (fst (time_Now w)) e"
      from parse_expired [OF this] show ?thesis by blast
    qed
    then obtain err w1 where "ParseAccessToken m [Tok (JWS a cl sg)] w = (Inl err, w1)"
      unfolding ParseAccessToken_def by blast
    then show "isUnauthorized c (fst (Auth m c w))"
      by (simp add: Auth_pair [OF hdr sp] isUnauthorized_Abort)
  qed
qed

theorem gate_collapses_failures_witness:
  "isUnauthorized (with_Authorization [])
     (fst (Auth example_manager (with_Authorization []) example_world)) \<and>
   isUnauthorized (with_Authorization (str ''Bearer''))
     (fst (Auth example_manager (with_Authorization (str ''Bearer'')) example_world)) \<and>
   isUnauthorized (with_Authorization (str ''Basic abc''))
     (fst (Auth example_manager (with_Authorization (str ''Basic abc'')) example_world)) \<and>
   isUnauthorized (with_Authorization (str ''Bearer '' @ forged_token))
     (fst (Auth example_manager (with_Authorization (str ''Bearer '' @ forged_token))
        example_world)) \<and>
   CurrentUserID
     (fst (Auth example_manager (with_Authorization (str ''bEaReR '' @ alice_access_token))
        example_world)) = Some ''u-alice''"
proof (intro conjI)
  show "isUnauthorized (with_Authorization [])
     (fst (Auth example_manager (with_Authorization []) example_world))"
    using gate_collapses_failures [of "with_Authorization []" example_manager example_world]
    by simp
  have "Chr CHR '' '' \<notin> set (str ''Bearer'')"
    by (simp add: str_def)
  then show "isUnauthorized (with_Authorization (str ''Bearer''))
     (fst (Auth example_manager (with_Authorization (str ''Bearer'')) example_world))"
    using gate_collapses_failures
      [of "with_Authorization (str ''Bearer'')" example_manager example_world]
    by simp
  have basic: "str ''Basic abc'' = str ''Basic'' @ Chr CHR '' '' # str ''abc''"
    and basic_sp: "Chr CHR '' '' \<notin> set (str ''Basic'')"
    by (simp_all add: str_def)
  with basic_does_not_fold
  show "isUnauthorized (with_Authorization (str ''Basic abc''))
     (fst (Auth example_manager (with_Authorization (str ''Basic abc'')) example_world))"
    using gate_collapses_failures
      [of "with_Authorization (str ''Basic abc'')" example_manager example_world]
    by (metis GetHeader_with_Authorization)
  have forged: "str ''Bearer '' @ forged_token =
      str ''Bearer'' @ Chr CHR '' '' #
        [Tok (JWS HS256
          \<lparr>claims_UserID = ''u-alice'', claims_TokenType = AccessToken,
           claims_IssuedAt = Some (1000 * Second), claims_ExpiresAt = Some (1900 * Second),
           claims_NotBefore = None,
           claims_ID = ''jti''\<rparr>
          (MAC ''refresh-secret''))]"
    and forged_sp: "Chr CHR '' '' \<notin> set (str ''Bearer'')"
    and forged_sig: "MAC ''refresh-secret'' \<noteq> MAC (accessSecret example_manager)"
    by (simp_all add: str_def forged_token_def example_manager_def New_def)
  then show "isUnauthorized (with_Authorization (str ''Bearer '' @ forged_token))
     (fst (Auth example_manager (with_Authorization (str ''Bearer '' @ forged_token))
        example_world))"
    using gate_collapses_failures
      [of "with_Authorization (str ''Bearer '' @ forged_token)" example_manager example_world]
    by (metis GetHeader_with_Authorization)
  have good: "str ''bEaReR '' @ alice_access_token =
      str ''bEaReR'' @ Chr CHR '' '' # alice_access_token"
    and good_sp: "Chr CHR '' '' \<notin> set (str ''bEaReR'')"
    by (simp_all add: str_def)
  with bearer_folds alice_access_token_parses
  show "CurrentUserID
     (fst (Auth example_manager (with_Authorization (str ''bEaReR '' @ alice_access_token))
        example_world)) = Some ''u-alice''"
    using gate_collapses_failures
      [of "with_Authorization (str ''bEaReR '' @ alice_access_token)" example_manager
          example_world]
    by (metis GetHeader_with_Authorization Claims.select_convs(1))
qed


subsection \<open>Repositories and the issue sub-flow\<close>

lemma db_statement_tables:
  "db_statement w = (failed, w1) \<Longrightarrow>
     failed = fault_at w (stmts w) \<and> w1 = w\<lparr>stmts := Suc (stmts w)\<rparr>"
  by (auto simp: db_statement_def)

lemma parse_tables:
  "parse m tokenStr secret expected w = (r, w1) \<Longrightarrow>
     users w1 = users w \<and> refresh_tokens w1 = refresh_tokens w \<and>
     fault_at w1 = fault_at w \<and> stmts w1 = stmts w"
  by (auto simp: parse_def ParseWithClaims_def time_Now_def
           split: list.splits sym.splits jws.splits sum.splits if_splits option.splits
                  prod.splits)

lemma FindByToken_result:
  "refreshTokenRepository_FindByToken token w =
     (if fault_at w (stmts w)
      then Inl (Wrap ''refreshTokenRepository.FindByToken'' ErrDriver)
      else (case find (\<lambda>r. rt_Token r = token) (refresh_tokens w) of
              None \<Rightarrow> Inl ErrNotFound
            | Some rt \<Rightarrow> Inr rt),
      w\<lparr>stmts := Suc (stmts w)\<rparr>)"
  by (simp add: refreshTokenRepository_FindByToken_def GetContext_def db_statement_def
           split: option.splits)

lemma FindByID_result:
  "userRepository_FindByID id' w =
     (if fault_at w (stmts w)
      then Inl (Wrap ''userRepository.FindByID'' ErrDriver)
      else (case find (\<lambda>u. user_ID u = id' \<and> user_DeletedAt u = None) (users w) of
              None \<Rightarrow> Inl ErrNotFound
            | Some u \<Rightarrow> Inr u),
      w\<lparr>stmts := Suc (stmts w)\<rparr>)"
  by (simp add: userRepository_FindByID_def GetContext_def db_statement_def
           split: option.splits)

lemma FindByEmail_result:
  "userRepository_FindByEmail email w =
     (if fault_at w (stmts w)
      then Inl (Wrap ''userRepository.FindByEmail'' ErrDriver)
      else (case find (\<lambda>u. user_Email u = email \<and> user_DeletedAt u = None) (users w) of
              None \<Rightarrow> Inl ErrNotFound
            | Some u \<Rightarrow> Inr u),
      w\<lparr>stmts := Suc (stmts w)\<rparr>)"
  by (simp add: userRepository_FindByEmail_def GetContext_def db_statement_def
           split: option.splits)

lemma DeleteByToken_result:
  "refreshTokenRepository_DeleteByToken token w =
     (if fault_at w (stmts w)
      then (Some (Wrap ''refreshTokenRepository.DeleteByToken'' ErrDriver),
            w\<lparr>stmts := Suc (stmts w)\<rparr>)
      else (None, w\<lparr>stmts := Suc (stmts w),
                    refresh_tokens := filter (\<lambda>r. rt_Token r \<noteq> token) (refresh_tokens w)\<rparr>))"
  by (simp add: refreshTokenRepository_DeleteByToken_def db_statement_def)

lemma DeleteByUserID_result:
  "refreshTokenRepository_DeleteByUserID userID w =
     (if fault_at w (stmts w)
      then (Some (Wrap ''refreshTokenRepository.DeleteByUserID'' ErrDriver),
            w\<lparr>stmts := Suc (stmts w)\<rparr>)
      else (None, w\<lparr>stmts := Suc (stmts w),
                    refresh_tokens := filter (\<lambda>r. rt_UserID r \<noteq> userID) (refresh_tokens w)\<rparr>))"
  by (simp add: refreshTokenRepository_DeleteByUserID_def db_statement_def)

lemma find_None_list_ex: "find P xs = None \<longleftrightarrow> \<not> list_ex P xs"
  by (auto simp: find_None_iff list_ex_iff)

lemma buildAuthResponse_result:
  "buildAuthResponse s user deviceID w =
     (case refreshTokenRepository_Create (issued_record s user deviceID w)
             (w\<lparr>uuid_ctr := uuid_ctr w + 3, reads := reads w + 4\<rparr>) of
        (Some err, w6) \<Rightarrow> (Inl (Wrap ''store refresh token'' err), w6)
      | (None, w6) \<Rightarrow>
          (Inr \<lparr>resp_AccessToken = issued_access s user w,
                resp_RefreshToken = issued_refresh s user w, resp_User = user\<rparr>, w6))"
  by (auto simp: buildAuthResponse_def GenerateAccessToken_def GenerateRefreshToken_def
        generate_result time_Now_def uuid_New_def issued_record_def issued_access_def
        issued_refresh_def Let_def numeral_eq_Suc
      split: prod.splits option.splits)

lemma Create_result:
  "refreshTokenRepository_Create token w = (r, w') \<Longrightarrow>
     users w' = users w \<and> stmts w' = Suc (stmts w) \<and> fault_at w' = fault_at w \<and>
     (case r of
        Some err \<Rightarrow> refresh_tokens w' = refresh_tokens w
      | None \<Rightarrow> refresh_tokens w' = refresh_tokens w @ [token] \<and>
               \<not> fault_at w (stmts w) \<and>
               \<not> list_ex (\<lambda>r. rt_Token r = rt_Token token) (refresh_tokens w))"
  by (auto simp: refreshTokenRepository_Create_def db_statement_def list_ex_iff
           split: if_splits)

lemma buildAuthResponse_Inr:
  "buildAuthResponse s user deviceID w = (Inr resp, w') \<Longrightarrow>
     resp = \<lparr>resp_AccessToken = issued_access s user w,
             resp_RefreshToken = issued_refresh s user w, resp_User = user\<rparr> \<and>
     refresh_tokens w' = refresh_tokens w @ [issued_record s user deviceID w] \<and>
     users w' = users w"
  by (auto simp: buildAuthResponse_result split: prod.splits option.splits
           dest!: Create_result)

lemma buildAuthResponse_Inl:
  "buildAuthResponse s user deviceID w = (Inl e, w') \<Longrightarrow>
     (\<exists>err. e = Wrap ''store refresh token'' err) \<and>
     refresh_tokens w' = refresh_tokens w \<and> users w' = users w"
  by (auto simp: buildAuthResponse_result split: prod.splits option.splits
           dest!: Create_result)

lemma has_session_filter: "\<not> has_session (w\<lparr>refresh_tokens := filter (\<lambda>r. rt_Token r \<noteq> t) rows\<rparr>) t"
  by (simp add: has_session_def list_ex_iff)

lemma RefreshTokens_rejects_unknown:
  assumes "\<not> has_session w (refresh_RefreshToken req)"
  shows "fst (RefreshTokens s req w) = Inl ErrTokenInvalid"
proof (cases "ParseRefreshToken (jwtManager s) (refresh_RefreshToken req) w")
  case (Pair r w1)
  show ?thesis
  proof (cases r)
    case (Inl err)
    with Pair show ?thesis by (simp add: RefreshTokens_def)
  next
    case (Inr claims)
    from Pair have "refresh_tokens w1 = refresh_tokens w"
      unfolding ParseRefreshToken_def by (rule parse_tables [THEN conjunct2, THEN conjunct1])
    with assms have "find (\<lambda>r. rt_Token r = refresh_RefreshToken req) (refresh_tokens w1) = None"
      by (simp add: find_None_list_ex has_session_def)
    with Pair Inr show ?thesis
      by (simp add: RefreshTokens_def FindByToken_result)
  qed
qed

lemma RefreshTokens_Inr:
  assumes "RefreshTokens s req w = (Inr resp, w')"
  shows "\<exists>claims stored user.
           ParseRefreshToken (jwtManager s) (refresh_RefreshToken req) w
             = (Inr claims, w\<lparr>reads := Suc (reads w)\<rparr>) \<and>
           find (\<lambda>r. rt_Token r = refresh_RefreshToken req) (refresh_tokens w) = Some stored \<and>
           \<not> Before (rt_ExpiresAt stored) (clock w (Suc (reads w))) \<and>
           \<not> fault_at w (stmts w) \<and> \<not> fault_at w (Suc (stmts w)) \<and>
           \<not> fault_at w (Suc (Suc (stmts w))) \<and>
           find (\<lambda>u. user_ID u = claims_UserID claims \<and> user_DeletedAt u = None) (users w)
             = Some user \<and>
           buildAuthResponse s user (refresh_DeviceID req) (rotated w (refresh_RefreshToken req))
             = (Inr resp, w')"
proof (cases "ParseRefreshToken (jwtManager s) (refresh_RefreshToken req) w")
  case (Pair r w1)
  with assms obtain claims where r: "r = Inr claims"
    by (cases r) (simp_all add: RefreshTokens_def)
  from Pair r have w1: "w1 = w\<lparr>reads := Suc (reads w)\<rparr>"
    unfolding ParseRefreshToken_def by (auto dest: parse_Inr)
  from assms Pair r w1 show ?thesis
    by (auto simp: RefreshTokens_def FindByToken_result DeleteByToken_result FindByID_result
          time_Now_def rotated_def split: if_splits option.splits)
qed

lemma has_session_rotated: "\<not> has_session (rotated w t) t"
  by (simp add: has_session_def list_ex_iff rotated_def)

lemma rotation_steps:
  assumes "\<not> fault_at w (Suc (stmts w))" and "\<not> fault_at w (Suc (Suc (stmts w)))"
    and "find (\<lambda>u. user_ID u = uid \<and> user_DeletedAt u = None) (users w) = Some user"
  shows "\<exists>w3 w4.
           refresh_tokens w3 = refresh_tokens w \<and>
           refreshTokenRepository_DeleteByToken t w3 = (None, w4) \<and>
           \<not> has_session w4 t \<and>
           userRepository_FindByID uid w4 = (Inr user, rotated w t) \<and>
           refresh_tokens (rotated w t) = refresh_tokens w4"
proof -
  let ?w3 = "w\<lparr>reads := Suc (Suc (reads w)), stmts := Suc (stmts w)\<rparr>"
  let ?w4 = "w\<lparr>reads := Suc (Suc (reads w)), stmts := Suc (Suc (stmts w)),
                 refresh_tokens := filter (\<lambda>r. rt_Token r \<noteq> t) (refresh_tokens w)\<rparr>"
  have "refresh_tokens ?w3 = refresh_tokens w"
    by simp
  moreover from assms(1) have "refreshTokenRepository_DeleteByToken t ?w3 = (None, ?w4)"
    by (simp add: DeleteByToken_result)
  moreover have "\<not> has_session ?w4 t"
    by (simp add: has_session_def list_ex_iff)
  moreover from assms(2,3) have "userRepository_FindByID uid ?w4 = (Inr user, rotated w t)"
    by (simp add: FindByID_result rotated_def)
  moreover have "refresh_tokens (rotated w t) = refresh_tokens ?w4"
    by (simp add: rotated_def)
  ultimately show ?thesis
    by blast
qed

subsection \<open>The example session\<close>

lemma example_service_sel [simp]:
  "jwtManager example_service = example_manager" "hasher example_service = example_bcrypt"
  by (simp_all add: example_service_def)

lemma example_manager_sel [simp]:
  "accessSecret example_manager = ''access-secret''"
  "refreshSecret example_manager = ''refresh-secret''"
  "accessTTL example_manager = 15 * Minute"
  "refreshTTL example_manager = 7 * 24 * Hour"
  by (simp_all add: example_manager_def New_def)

lemma session_world_sel [simp]:
  "users session_world = [alice]" "refresh_tokens session_world = [alice_session]"
  "fault_at session_world n = False" "stmts session_world = 0"
  "clock session_world n = 1000 * Second + 1000000 * int n" "reads session_world = 0"
  "uuid_src session_world n = replicate (Suc n) CHR ''#''" "uuid_ctr session_world = 0"
  by (simp_all add: session_world_def example_world_def)

lemma alice_refresh_token_parses:
  "clock w (reads w) < 900 * Second + 168 * Hour \<Longrightarrow>
   ParseRefreshToken example_manager alice_refresh_token w =
     (Inr alice_refresh_claims, w\<lparr>reads := Suc (reads w)\<rparr>)"
  by (simp add: ParseRefreshToken_def alice_refresh_token_def parse_of_signed
        alice_refresh_claims_def)

lemma example_refresh_runs:
  "\<exists>w'. RefreshTokens example_service example_refresh session_world =
     (Inr \<lparr>resp_AccessToken = issued_access example_service alice
                                (rotated session_world alice_refresh_token),
           resp_RefreshToken = issued_refresh example_service alice
                                (rotated session_world alice_refresh_token),
           resp_User = alice\<rparr>, w')"
  by (simp add: RefreshTokens_def example_refresh_def alice_refresh_token_parses
        FindByToken_result DeleteByToken_result FindByID_result time_Now_def
        buildAuthResponse_result refreshTokenRepository_Create_def db_statement_def
        alice_session_def alice_def Before_def Second_def Minute_def Hour_def rotated_def
        issued_record_def issued_refresh_def issued_access_def alice_refresh_claims_def)


lemma example_refresh_fresh:
  "issued_refresh example_service alice (rotated session_world alice_refresh_token)
     \<noteq> alice_refresh_token"
  by (simp add: issued_refresh_def alice_refresh_token_def alice_refresh_claims_def
        uuid_String_def rotated_def)

subsection \<open>Refresh tokens are single-use\<close>

text \<open>
  Claim C1. When a refresh succeeds, the DELETE of the presented token has been
  executed, on the table the call started with, before the issue sub-flow starts:
  \<^verbatim>\<open>buildAuthResponse\<close> runs in a world whose table has no row for that token.
  Provided the new refresh token is a different string, the world after the call has
  no session for the old one, and every later refresh that presents the old string to
  that table fails with \<open>ErrTokenInvalid\<close>, whatever the clock and the driver do.
\<close>

theorem refresh_token_single_use:
  "RefreshTokens s req w = (Inr resp, w') \<longrightarrow>
     (\<exists>w3 w4 (claims :: Claims) user w5.
        refresh_tokens w3 = refresh_tokens w \<and>
        refreshTokenRepository_DeleteByToken (refresh_RefreshToken req) w3 = (None, w4) \<and>
        \<not> has_session w4 (refresh_RefreshToken req) \<and>
        userRepository_FindByID (claims_UserID claims) w4 = (Inr user, w5) \<and>
        refresh_tokens w5 = refresh_tokens w4 \<and>
        buildAuthResponse s user (refresh_DeviceID req) w5 = (Inr resp, w')) \<and>
     (resp_RefreshToken resp \<noteq> refresh_RefreshToken req \<longrightarrow>
        \<not> has_session w' (refresh_RefreshToken req) \<and>
        (\<forall>req' w''.
           refresh_RefreshToken req' = refresh_RefreshToken req \<and>
           refresh_tokens w'' = refresh_tokens w' \<longrightarrow>
           fst (RefreshTokens s req' w'') = Inl ErrTokenInvalid))"
proof (intro impI conjI)
  assume run: "RefreshTokens s req w = (Inr resp, w')"
  from RefreshTokens_Inr [OF run] obtain claims :: Claims and user :: User where
    faults: "\<not> fault_at w (Suc (stmts w))" "\<not> fault_at w (Suc (Suc (stmts w)))"
    and user: "find (\<lambda>u. user_ID u = claims_UserID claims \<and> user_DeletedAt u = None) (users w)
                 = Some user"
    and issue: "buildAuthResponse s user (refresh_DeviceID req)
                  (rotated w (refresh_RefreshToken req)) = (Inr resp, w')"
    by blast
  from rotation_steps [OF faults user, of "refresh_RefreshToken req"] issue
  show "\<exists>w3 w4 (claims :: Claims) user w5.
        refresh_tokens w3 = refresh_tokens w \<and>
        refreshTokenRepository_DeleteByToken (refresh_RefreshToken req) w3 = (None, w4) \<and>
        \<not> has_session w4 (refresh_RefreshToken req) \<and>
        userRepository_FindByID (claims_UserID claims) w4 = (Inr user, w5) \<and>
        refresh_tokens w5 = refresh_tokens w4 \<and>
        buildAuthResponse s user (refresh_DeviceID req) w5 = (Inr resp, w')"
    by blast
  assume fresh: "resp_RefreshToken resp \<noteq> refresh_RefreshToken req"
  from buildAuthResponse_Inr [OF issue] fresh
  show gone: "\<not> has_session w' (refresh_RefreshToken req)"
    by (auto simp: has_session_def list_ex_iff rotated_def issued_record_def)
  show "\<forall>req' w''.
           refresh_RefreshToken req' = refresh_RefreshToken req \<and>
           refresh_tokens w'' = refresh_tokens w' \<longrightarrow>
           fst (RefreshTokens s req' w'') = Inl ErrTokenInvalid"
  proof (intro allI impI, elim conjE)
    fix req' :: RefreshTokenRequest and w'' :: world
    assume "refresh_RefreshToken req' = refresh_RefreshToken req"
      and "refresh_tokens w'' = refresh_tokens w'"
    with gone have "\<not> has_session w'' (refresh_RefreshToken req')"
      by (simp add: has_session_def)
    then show "fst (RefreshTokens s req' w'') = Inl ErrTokenInvalid"
      by (rule RefreshTokens_rejects_unknown)
  qed
qed

theorem refresh_token_single_use_witness:
  "\<exists>resp w'.
     RefreshTokens example_service example_refresh session_world = (Inr resp, w') \<and>
     resp_RefreshToken resp \<noteq> alice_refresh_token \<and>
     \<not> has_session w' alice_refresh_token \<and>
     fst (ParseRefreshToken example_manager alice_refresh_token w') = Inr alice_refresh_claims \<and>
     fst (RefreshTokens example_service example_refresh w') = Inl ErrTokenInvalid"
proof -
  from example_refresh_runs obtain resp w' where
    run: "RefreshTokens example_service example_refresh session_world = (Inr resp, w')"
    and resp: "resp_RefreshToken resp =
      issued_refresh example_service alice (rotated session_world alice_refresh_token)"
    by force
  from resp example_refresh_fresh
  have fresh: "resp_RefreshToken resp \<noteq> refresh_RefreshToken example_refresh"
    by (simp add: example_refresh_def)
  from refresh_token_single_use [of example_service example_refresh session_world resp w']
    run fresh
  have gone: "\<not> has_session w' (refresh_RefreshToken example_refresh)"
    and again: "fst (RefreshTokens example_service example_refresh w') = Inl ErrTokenInvalid"
    by blast+
  from RefreshTokens_Inr [OF run] obtain user where
    "buildAuthResponse example_service user (refresh_DeviceID example_refresh)
       (rotated session_world (refresh_RefreshToken example_refresh)) = (Inr resp, w')"
    by blast
  then have "reads w' = 6" and "clock w' = clock session_world"
    by (auto simp: buildAuthResponse_result refreshTokenRepository_Create_def db_statement_def
          rotated_def split: if_splits)
  then have "clock w' (reads w') < 900 * Second + 168 * Hour"
    by (simp add: Second_def Minute_def Hour_def)
  then have "fst (ParseRefreshToken example_manager alice_refresh_token w') =
      Inr alice_refresh_claims"
    by (simp add: alice_refresh_token_parses)
  with run fresh gone again show ?thesis
    by (simp add: example_refresh_def)
qed

subsection \<open>Facts about failing refreshes\<close>

lemma find_Some_has_session:
  "find (\<lambda>r. rt_Token r = t) (refresh_tokens w) = Some stored \<Longrightarrow> has_session w t"
  by (auto simp: has_session_def list_ex_iff find_Some_iff)

lemma filter_changes:
  "has_session w t \<Longrightarrow> filter (\<lambda>r. rt_Token r \<noteq> t) (refresh_tokens w) \<noteq> refresh_tokens w"
  by (auto simp: has_session_def list_ex_iff filter_id_conv)

lemma RefreshTokens_Inl:
  assumes "RefreshTokens s req w = (Inl e, w')"
  shows "(e = ErrTokenInvalid \<and> refresh_tokens w' = refresh_tokens w) \<or>
         (e = ErrTokenExpired \<and> has_session w (refresh_RefreshToken req) \<and>
            refresh_tokens w' =
              (if fault_at w (Suc (stmts w)) then refresh_tokens w
               else filter (\<lambda>r. rt_Token r \<noteq> refresh_RefreshToken req) (refresh_tokens w))) \<or>
         ((\<exists>c. e = Wrap ''authService.RefreshTokens delete old'' c) \<and>
            refresh_tokens w' = refresh_tokens w) \<or>
         (((\<exists>c. e = Wrap ''authService.RefreshTokens FindByID'' c) \<or>
           (\<exists>c. e = Wrap ''store refresh token'' c)) \<and>
            has_session w (refresh_RefreshToken req) \<and>
            refresh_tokens w' =
              filter (\<lambda>r. rt_Token r \<noteq> refresh_RefreshToken req) (refresh_tokens w))"
proof (cases "ParseRefreshToken (jwtManager s) (refresh_RefreshToken req) w")
  case (Pair r w1)
  from Pair have tables: "refresh_tokens w1 = refresh_tokens w" "users w1 = users w"
    "fault_at w1 = fault_at w" "stmts w1 = stmts w"
    unfolding ParseRefreshToken_def by (auto dest: parse_tables)
  show ?thesis
  proof (cases r)
    case (Inl err)
    with assms Pair tables show ?thesis
      by (auto simp: RefreshTokens_def)
  next
    case (Inr claims)
    with assms Pair tables show ?thesis
      by (auto simp: RefreshTokens_def FindByToken_result DeleteByToken_result FindByID_result
            time_Now_def
          split: if_splits option.splits
          dest!: buildAuthResponse_Inl find_Some_has_session)
  qed
qed

lemma orphan_world_sel [simp]:
  "users orphan_world = [alice\<lparr>user_DeletedAt := Some (950 * Second)\<rparr>]"
  "refresh_tokens orphan_world = [alice_session]"
  "fault_at orphan_world n = False" "stmts orphan_world = 0"
  "clock orphan_world n = 1000 * Second + 1000000 * int n" "reads orphan_world = 0"
  by (simp_all add: orphan_world_def)

lemma orphan_refresh_runs:
  "\<exists>w'. RefreshTokens example_service example_refresh orphan_world =
     (Inl (Wrap ''authService.RefreshTokens FindByID'' ErrNotFound), w')"
  by (simp add: RefreshTokens_def example_refresh_def alice_refresh_token_parses
        FindByToken_result DeleteByToken_result FindByID_result time_Now_def
        alice_session_def alice_def Before_def Second_def Minute_def Hour_def
        alice_refresh_claims_def)

lemma stale_world_sel [simp]:
  "users stale_world = [alice]" "refresh_tokens stale_world = [stale_session]"
  "fault_at stale_world n = False" "stmts stale_world = 0"
  "clock stale_world n = 1000 * Second + 1000000 * int n" "reads stale_world = 0"
  by (simp_all add: stale_world_def example_world_def)

lemma stale_faulty_world_sel [simp]:
  "users stale_faulty_world = [alice]" "refresh_tokens stale_faulty_world = [stale_session]"
  "fault_at stale_faulty_world n = (n = 1)" "stmts stale_faulty_world = 0"
  "clock stale_faulty_world n = 1000 * Second + 1000000 * int n" "reads stale_faulty_world = 0"
  by (simp_all add: stale_faulty_world_def)

lemma stale_session_sel [simp]:
  "rt_Token stale_session = alice_refresh_token" "rt_ExpiresAt stale_session = 950 * Second"
  by (simp_all add: stale_session_def alice_session_def)

lemma store_fault_world_sel [simp]:
  "users store_fault_world = [alice]" "refresh_tokens store_fault_world = [alice_session]"
  "fault_at store_fault_world n = (n = 3)" "stmts store_fault_world = 0"
  "clock store_fault_world n = 1000 * Second + 1000000 * int n" "reads store_fault_world = 0"
  by (simp_all add: store_fault_world_def)

lemma store_fault_refresh_runs:
  "\<exists>w'. RefreshTokens example_service example_refresh store_fault_world =
     (Inl (Wrap ''store refresh token'' (Wrap ''refreshTokenRepository.Create'' ErrDriver)), w')"
  by (simp add: RefreshTokens_def example_refresh_def alice_refresh_token_parses
        FindByToken_result DeleteByToken_result FindByID_result time_Now_def
        buildAuthResponse_result refreshTokenRepository_Create_def db_statement_def
        alice_session_def alice_def Before_def Second_def Minute_def Hour_def
        alice_refresh_claims_def numeral_3_eq_3)

subsection \<open>A refresh that fails after the rotation consumes the token\<close>

text \<open>
  Claim C9. When a refresh fails after its rotation delete, that is with the wrapped
  error of the user lookup or of the issue sub-flow (storing the new record), the
  presented token had a session record, the table after the call is the table before
  it without the rows of that token, so the record is gone, no new one exists, and
  the store has changed.
\<close>

theorem refresh_failure_consumes_token:
  "RefreshTokens s req w = (Inl e, w') \<and> failed_after_rotation e \<longrightarrow>
     has_session w (refresh_RefreshToken req) \<and>
     refresh_tokens w' =
       filter (\<lambda>r. rt_Token r \<noteq> refresh_RefreshToken req) (refresh_tokens w) \<and>
     \<not> has_session w' (refresh_RefreshToken req) \<and>
     refresh_tokens w' \<noteq> refresh_tokens w"
proof (intro impI, elim conjE)
  assume run: "RefreshTokens s req w = (Inl e, w')" and after: "failed_after_rotation e"
  from after have "e \<noteq> ErrTokenInvalid" "e \<noteq> ErrTokenExpired"
    "\<not> (\<exists>c. e = Wrap ''authService.RefreshTokens delete old'' c)"
    by (auto simp: failed_after_rotation_def)
  with RefreshTokens_Inl [OF run]
  have had: "has_session w (refresh_RefreshToken req)"
    and rows: "refresh_tokens w' =
       filter (\<lambda>r. rt_Token r \<noteq> refresh_RefreshToken req) (refresh_tokens w)"
    by blast+
  from rows have "\<not> has_session w' (refresh_RefreshToken req)"
    by (simp add: has_session_def list_ex_iff)
  moreover from had rows have "refresh_tokens w' \<noteq> refresh_tokens w"
    by (simp add: filter_changes)
  ultimately show "has_session w (refresh_RefreshToken req) \<and>
     refresh_tokens w' =
       filter (\<lambda>r. rt_Token r \<noteq> refresh_RefreshToken req) (refresh_tokens w) \<and>
     \<not> has_session w' (refresh_RefreshToken req) \<and>
     refresh_tokens w' \<noteq> refresh_tokens w"
    using had rows by blast
qed

theorem refresh_failure_consumes_token_witness:
  "fst (RefreshTokens example_service example_refresh orphan_world) =
     Inl (Wrap ''authService.RefreshTokens FindByID'' ErrNotFound) \<and>
   failed_after_rotation (Wrap ''authService.RefreshTokens FindByID'' ErrNotFound) \<and>
   refresh_tokens orphan_world = [alice_session] \<and>
   refresh_tokens (snd (RefreshTokens example_service example_refresh orphan_world)) = [] \<and>
   fst (RefreshTokens example_service example_refresh store_fault_world) =
     Inl (Wrap ''store refresh token'' (Wrap ''refreshTokenRepository.Create'' ErrDriver)) \<and>
   failed_after_rotation
     (Wrap ''store refresh token'' (Wrap ''refreshTokenRepository.Create'' ErrDriver)) \<and>
   refresh_tokens store_fault_world = [alice_session] \<and>
   refresh_tokens (snd (RefreshTokens example_service example_refresh store_fault_world)) = []"
proof -
  from orphan_refresh_runs obtain w' where
    run: "RefreshTokens example_service example_refresh orphan_world =
      (Inl (Wrap ''authService.RefreshTokens FindByID'' ErrNotFound), w')"
    by blast
  have after: "failed_after_rotation (Wrap ''authService.RefreshTokens FindByID'' ErrNotFound)"
    by (simp add: failed_after_rotation_def)
  from refresh_failure_consumes_token
    [of example_service example_refresh orphan_world
        "Wrap ''authService.RefreshTokens FindByID'' ErrNotFound" w'] run after
  have "refresh_tokens w' =
      filter (\<lambda>r. rt_Token r \<noteq> refresh_RefreshToken example_refresh)
        (refresh_tokens orphan_world)"
    by blast
  then have rows: "refresh_tokens w' = []"
    by (simp add: example_refresh_def alice_session_def)
  from store_fault_refresh_runs obtain w'' where
    run2: "RefreshTokens example_service example_refresh store_fault_world =
      (Inl (Wrap ''store refresh token'' (Wrap ''refreshTokenRepository.Create'' ErrDriver)),
       w'')"
    by blast
  have after2: "failed_after_rotation
      (Wrap ''store refresh token'' (Wrap ''refreshTokenRepository.Create'' ErrDriver))"
    by (simp add: failed_after_rotation_def)
  from refresh_failure_consumes_token
    [of example_service example_refresh store_fault_world
        "Wrap ''store refresh token'' (Wrap ''refreshTokenRepository.Create'' ErrDriver)" w'']
    run2 after2
  have "refresh_tokens w'' =
      filter (\<lambda>r. rt_Token r \<noteq> refresh_RefreshToken example_refresh)
        (refresh_tokens store_fault_world)"
    by blast
  then have rows2: "refresh_tokens w'' = []"
    by (simp add: example_refresh_def alice_session_def)
  from run after rows run2 after2 rows2 show ?thesis
    by simp
qed

subsection \<open>Refresh with an expired session record\<close>

text \<open>
  Claim C6, as amended. When the presented token verifies, its session record is
  found and the record's expiry is before the clock reading, the call runs the DELETE
  of the token, discards its outcome, and fails with \<open>ErrTokenExpired\<close>: the rows of
  the token are gone when the DELETE was executed and the table is as before when the
  DELETE failed. In both cases the users are untouched and no UUID was drawn, so no
  token was issued and no record created.
\<close>

theorem expired_record_refresh:
  "ParseRefreshToken (jwtManager s) (refresh_RefreshToken req) w = (Inr claims, w1) \<and>
   refreshTokenRepository_FindByToken (refresh_RefreshToken req) w1 = (Inr stored, w2) \<and>
   Before (rt_ExpiresAt stored) (fst (time_Now w2)) \<longrightarrow>
     (case refreshTokenRepository_DeleteByToken (refresh_RefreshToken req) (snd (time_Now w2)) of
        (ignored, w4) \<Rightarrow>
          RefreshTokens s req w = (Inl ErrTokenExpired, w4) \<and>
          refresh_tokens w4 =
            (if ignored = None
             then filter (\<lambda>r. rt_Token r \<noteq> refresh_RefreshToken req) (refresh_tokens w)
             else refresh_tokens w) \<and>
          users w4 = users w \<and> uuid_ctr w4 = uuid_ctr w)"
proof (intro impI, elim conjE)
  assume p: "ParseRefreshToken (jwtManager s) (refresh_RefreshToken req) w = (Inr claims, w1)"
    and f: "refreshTokenRepository_FindByToken (refresh_RefreshToken req) w1 = (Inr stored, w2)"
    and x: "Before (rt_ExpiresAt stored) (fst (time_Now w2))"
  from p have w1: "w1 = w\<lparr>reads := Suc (reads w)\<rparr>"
    unfolding ParseRefreshToken_def by (auto dest: parse_Inr)
  from f have w2: "w2 = w1\<lparr>stmts := Suc (stmts w1)\<rparr>"
    by (simp add: FindByToken_result)
  from p f x w1 w2 show "case refreshTokenRepository_DeleteByToken (refresh_RefreshToken req)
        (snd (time_Now w2)) of
        (ignored, w4) \<Rightarrow>
          RefreshTokens s req w = (Inl ErrTokenExpired, w4) \<and>
          refresh_tokens w4 =
            (if ignored = None
             then filter (\<lambda>r. rt_Token r \<noteq> refresh_RefreshToken req) (refresh_tokens w)
             else refresh_tokens w) \<and>
          users w4 = users w \<and> uuid_ctr w4 = uuid_ctr w"
    by (simp add: RefreshTokens_def DeleteByToken_result time_Now_def)
qed

theorem expired_record_refresh_witness:
  "ParseRefreshToken (jwtManager example_service) (refresh_RefreshToken example_refresh)
     stale_world = (Inr alice_refresh_claims, stale_world\<lparr>reads := Suc 0\<rparr>) \<and>
   refreshTokenRepository_FindByToken (refresh_RefreshToken example_refresh)
     (stale_world\<lparr>reads := Suc 0\<rparr>) = (Inr stale_session, stale_world\<lparr>reads := Suc 0, stmts := Suc 0\<rparr>) \<and>
   Before (rt_ExpiresAt stale_session) (fst (time_Now (stale_world\<lparr>reads := Suc 0, stmts := Suc 0\<rparr>))) \<and>
   fst (RefreshTokens example_service example_refresh stale_world) = Inl ErrTokenExpired \<and>
   refresh_tokens (snd (RefreshTokens example_service example_refresh stale_world)) = []"
proof -
  have p: "ParseRefreshToken (jwtManager example_service) (refresh_RefreshToken example_refresh)
     stale_world = (Inr alice_refresh_claims, stale_world\<lparr>reads := Suc 0\<rparr>)"
    by (simp add: example_refresh_def alice_refresh_token_parses Second_def Minute_def Hour_def)
  have f: "refreshTokenRepository_FindByToken (refresh_RefreshToken example_refresh)
     (stale_world\<lparr>reads := Suc 0\<rparr>) = (Inr stale_session, stale_world\<lparr>reads := Suc 0, stmts := Suc 0\<rparr>)"
    by (simp add: example_refresh_def FindByToken_result)
  have x: "Before (rt_ExpiresAt stale_session)
      (fst (time_Now (stale_world\<lparr>reads := Suc 0, stmts := Suc 0\<rparr>)))"
    by (simp add: time_Now_def Before_def Second_def)
  have d: "refreshTokenRepository_DeleteByToken (refresh_RefreshToken example_refresh)
      (snd (time_Now (stale_world\<lparr>reads := Suc 0, stmts := Suc 0\<rparr>))) =
      (None, stale_world\<lparr>reads := Suc (Suc 0), stmts := Suc (Suc 0), refresh_tokens := []\<rparr>)"
    by (simp add: DeleteByToken_result time_Now_def example_refresh_def)
  from expired_record_refresh
    [of example_service example_refresh stale_world alice_refresh_claims
        "stale_world\<lparr>reads := Suc 0\<rparr>" stale_session "stale_world\<lparr>reads := Suc 0, stmts := Suc 0\<rparr>"]
    p f x
  have "RefreshTokens example_service example_refresh stale_world =
      (Inl ErrTokenExpired, stale_world\<lparr>reads := Suc (Suc 0), stmts := Suc (Suc 0), refresh_tokens := []\<rparr>)"
    by (simp add: d)
  with p f x show ?thesis
    by simp
qed

text \<open>
  The claim as stated fails where the driver fails the second statement: the call
  answers \<open>ErrTokenExpired\<close> and the expired record is still in the table.
\<close>

theorem expired_record_refresh_counterexample:
  "fst (ParseRefreshToken (jwtManager example_service) alice_refresh_token stale_faulty_world) =
     Inr alice_refresh_claims \<and>
   fst (refreshTokenRepository_FindByToken alice_refresh_token stale_faulty_world) =
     Inr stale_session \<and>
   Before (rt_ExpiresAt stale_session) (clock stale_faulty_world 1) \<and>
   fst (RefreshTokens example_service example_refresh stale_faulty_world) =
     Inl ErrTokenExpired \<and>
   refresh_tokens (snd (RefreshTokens example_service example_refresh stale_faulty_world)) =
     [stale_session]"
  by (simp add: RefreshTokens_def example_refresh_def alice_refresh_token_parses
        FindByToken_result DeleteByToken_result time_Now_def Before_def
        Second_def Minute_def Hour_def)

lemma Logout_result:
  "Logout s userID token allDevices w =
     (if fault_at w (stmts w)
      then (Some (Wrap (if allDevices then ''refreshTokenRepository.DeleteByUserID''
                        else ''refreshTokenRepository.DeleteByToken'') ErrDriver),
            w\<lparr>stmts := Suc (stmts w)\<rparr>)
      else (None, w\<lparr>stmts := Suc (stmts w),
                    refresh_tokens :=
                      (if allDevices
                       then filter (\<lambda>r. rt_UserID r \<noteq> userID) (refresh_tokens w)
                       else filter (\<lambda>r. rt_Token r \<noteq> token) (refresh_tokens w))\<rparr>))"
  by (simp add: Logout_def DeleteByToken_result DeleteByUserID_result)

subsection \<open>Logout\<close>

text \<open>
  Claim C8, as amended. Logout runs one DELETE: by identity when \<open>allDevices\<close> is set,
  by token string otherwise. It succeeds exactly when the driver executes that
  statement, whether or not any row matches, and then the table is the old one without
  the rows of the identity, respectively of the token; deleting what is not there
  leaves the table as it is, and so does repeating the call. When the statement fails,
  Logout returns the error and the table is unchanged.
\<close>

theorem logout_revocation:
  "Logout s userID token allDevices w = (r, w') \<longrightarrow>
     (r = None \<longleftrightarrow> \<not> fault_at w (stmts w)) \<and>
     users w' = users w \<and>
     (r = None \<longrightarrow>
        refresh_tokens w' =
          (if allDevices then filter (\<lambda>r. rt_UserID r \<noteq> userID) (refresh_tokens w)
           else filter (\<lambda>r. rt_Token r \<noteq> token) (refresh_tokens w))) \<and>
     (r \<noteq> None \<longrightarrow> refresh_tokens w' = refresh_tokens w) \<and>
     (r = None \<and> \<not> allDevices \<and> \<not> has_session w token \<longrightarrow>
        refresh_tokens w' = refresh_tokens w) \<and>
     (r = None \<and> allDevices \<and> \<not> list_ex (\<lambda>r. rt_UserID r = userID) (refresh_tokens w) \<longrightarrow>
        refresh_tokens w' = refresh_tokens w) \<and>
     (r = None \<longrightarrow>
        refresh_tokens (snd (Logout s userID token allDevices w')) = refresh_tokens w')"
  by (auto simp: Logout_result has_session_def list_ex_iff filter_id_conv split: if_splits)

theorem logout_revocation_witness:
  "fst (Logout example_service ''u-alice'' alice_refresh_token False session_world) = None \<and>
   refresh_tokens (snd (Logout example_service ''u-alice'' alice_refresh_token False
     session_world)) = [] \<and>
   fst (Logout example_service ''u-alice'' alice_refresh_token True session_world) = None \<and>
   refresh_tokens (snd (Logout example_service ''u-alice'' alice_refresh_token True
     session_world)) = [] \<and>
   fst (Logout example_service ''u-bob'' (str ''no-such-token'') False session_world) = None \<and>
   refresh_tokens (snd (Logout example_service ''u-bob'' (str ''no-such-token'') False
     session_world)) = [alice_session]"
proof -
  have nofault: "\<not> fault_at session_world (stmts session_world)"
    by simp
  have a: "refresh_tokens (snd (Logout example_service ''u-alice'' alice_refresh_token False
     session_world)) = [] \<and>
     fst (Logout example_service ''u-alice'' alice_refresh_token False session_world) = None"
    using nofault
      logout_revocation [of example_service "''u-alice''" alice_refresh_token False session_world
        "fst (Logout example_service ''u-alice'' alice_refresh_token False session_world)"
        "snd (Logout example_service ''u-alice'' alice_refresh_token False session_world)"]
    by (simp add: alice_session_def)
  have b: "refresh_tokens (snd (Logout example_service ''u-alice'' alice_refresh_token True
     session_world)) = [] \<and>
     fst (Logout example_service ''u-alice'' alice_refresh_token True session_world) = None"
    using nofault
      logout_revocation [of example_service "''u-alice''" alice_refresh_token True session_world
        "fst (Logout example_service ''u-alice'' alice_refresh_token True session_world)"
        "snd (Logout example_service ''u-alice'' alice_refresh_token True session_world)"]
    by (simp add: alice_session_def)
  have absent: "\<not> has_session session_world (str ''no-such-token'')"
    by (simp add: has_session_def alice_session_def alice_refresh_token_def str_def)
  have c: "refresh_tokens (snd (Logout example_service ''u-bob'' (str ''no-such-token'') False
     session_world)) = [alice_session] \<and>
     fst (Logout example_service ''u-bob'' (str ''no-such-token'') False session_world) = None"
    using nofault absent
      logout_revocation [of example_service "''u-bob''" "str ''no-such-token''" False
        session_world
        "fst (Logout example_service ''u-bob'' (str ''no-such-token'') False session_world)"
        "snd (Logout example_service ''u-bob'' (str ''no-such-token'') False session_world)"]
    by (simp add: alice_session_def alice_refresh_token_def str_def)
  from a b c show ?thesis
    by simp
qed

text \<open>
  The claim as stated, that Logout always succeeds, fails when the driver fails the
  statement: both forms of Logout return the wrapped driver error.
\<close>

theorem logout_revocation_counterexample:
  "fst (Logout example_service ''u-alice'' alice_refresh_token False faulty_world) =
     Some (Wrap ''refreshTokenRepository.DeleteByToken'' ErrDriver) \<and>
   fst (Logout example_service ''u-alice'' alice_refresh_token True faulty_world) =
     Some (Wrap ''refreshTokenRepository.DeleteByUserID'' ErrDriver)"
  by (simp add: Logout_result faulty_world_def)

subsection \<open>Facts about login and registration\<close>

lemma errors_Is_self [simp]: "errors_Is e e"
  by (cases e) simp_all

lemma example_world_sel [simp]:
  "users example_world = [alice]" "refresh_tokens example_world = []"
  "fault_at example_world n = False" "stmts example_world = 0"
  "clock example_world n = 1000 * Second + 1000000 * int n" "reads example_world = 0"
  "uuid_src example_world n = replicate (Suc n) CHR ''#''" "uuid_ctr example_world = 0"
  by (simp_all add: example_world_def)

lemma alice_sel [simp]:
  "user_ID alice = ''u-alice''" "user_Email alice = ''a@x.com''"
  "user_Password alice = ''hash(longenough1)''" "user_DeletedAt alice = None"
  by (simp_all add: alice_def)

lemma example_bcrypt_check:
  "CheckPassword example_bcrypt plain hashed =
     (if hashed = ''hash('' @ plain @ '')'' then None
      else Some (ErrorNew ''hashedPassword is not the hash of the given password''))"
  by (simp add: CheckPassword_def example_bcrypt_def)

lemma userRepository_Create_tables:
  "userRepository_Create user w = (r, w') \<Longrightarrow> refresh_tokens w' = refresh_tokens w"
  by (auto simp: userRepository_Create_def db_statement_def split: if_splits)

lemma buildAuthResponse_new_record:
  "buildAuthResponse s user deviceID w = (Inr resp, w') \<Longrightarrow>
     \<exists>rt. refresh_tokens w' = refresh_tokens w @ [rt] \<and>
          rt_Token rt = resp_RefreshToken resp \<and> rt_UserAgent rt = ''''"
  by (auto simp: issued_record_def dest!: buildAuthResponse_Inr)

lemma Register_Inr:
  assumes "Register s req w = (Inr resp, w')"
  shows "\<exists>user w4. refresh_tokens w4 = refresh_tokens w \<and>
           buildAuthResponse s user ''register-device'' w4 = (Inr resp, w')"
  using assms
  by (auto simp: Register_def FindByEmail_result time_Now_def uuid_New_def Let_def
        split: if_splits sum.splits option.splits prod.splits
        dest!: userRepository_Create_tables) blast

lemma Login_Inr:
  assumes "Login s req userAgent w = (Inr resp, w')"
  shows "\<exists>user w1. refresh_tokens w1 = refresh_tokens w \<and>
           buildAuthResponse s user (login_DeviceID req) w1 = (Inr resp, w')"
proof -
  from assms obtain user where
    "buildAuthResponse s user (login_DeviceID req) (w\<lparr>stmts := Suc (stmts w)\<rparr>) = (Inr resp, w')"
    by (auto simp: Login_def FindByEmail_result split: if_splits sum.splits option.splits)
  moreover have "refresh_tokens (w\<lparr>stmts := Suc (stmts w)\<rparr>) = refresh_tokens w"
    by simp
  ultimately show ?thesis
    by blast
qed

lemma example_bcrypt_hash:
  "Password example_bcrypt plain = Inr (''hash('' @ plain @ '')'')"
  by (simp add: Password_def example_bcrypt_def)

lemma login_runs:
  "\<exists>resp w'. Login example_service alice_login ua example_world = (Inr resp, w')"
  by (simp add: Login_def FindByEmail_result alice_login_def example_bcrypt_check
        buildAuthResponse_result refreshTokenRepository_Create_def db_statement_def
        issued_record_def)

lemma register_runs:
  "\<exists>resp w'. Register example_service bob_register example_world = (Inr resp, w')"
  by (simp add: Register_def FindByEmail_result bob_register_def example_bcrypt_hash
        time_Now_def uuid_New_def userRepository_Create_def db_statement_def Let_def
        buildAuthResponse_result refreshTokenRepository_Create_def issued_record_def)

subsection \<open>Login failures\<close>

text \<open>
  Claim C5. A login whose email has no account and a login whose account exists but
  whose password does not verify both return \<open>ErrInvalidCredentials\<close>, and the handler
  answers both with the same 401 and the same message; neither touches the tables,
  and started in the same world they end in the same world.
\<close>

theorem login_failures_indistinguishable:
  "userRepository_FindByEmail (login_Email req1) w1 = (Inl ErrNotFound, w1') \<and>
   userRepository_FindByEmail (login_Email req2) w2 = (Inr user, w2') \<and>
   CheckPassword (hasher s) (login_Password req2) (user_Password user) = Some err \<longrightarrow>
     Login s req1 ua1 w1 = (Inl ErrInvalidCredentials, w1') \<and>
     Login s req2 ua2 w2 = (Inl ErrInvalidCredentials, w2') \<and>
     AuthHandler_Login s (Bound req1) c w1 = (Unauthorized c ''invalid email or password'', w1') \<and>
     AuthHandler_Login s (Bound req2) c w2 = (Unauthorized c ''invalid email or password'', w2') \<and>
     users w1' = users w1 \<and> refresh_tokens w1' = refresh_tokens w1 \<and>
     users w2' = users w2 \<and> refresh_tokens w2' = refresh_tokens w2 \<and>
     (w1 = w2 \<longrightarrow> w1' = w2')"
  by (auto simp: Login_def AuthHandler_Login_def FindByEmail_result split: if_splits)

theorem login_failures_indistinguishable_witness:
  "userRepository_FindByEmail (login_Email unknown_login) example_world =
     (Inl ErrNotFound, example_world\<lparr>stmts := Suc 0\<rparr>) \<and>
   userRepository_FindByEmail (login_Email wrong_password_login) example_world =
     (Inr alice, example_world\<lparr>stmts := Suc 0\<rparr>) \<and>
   CheckPassword (hasher example_service) (login_Password wrong_password_login)
     (user_Password alice) =
     Some (ErrorNew ''hashedPassword is not the hash of the given password'') \<and>
   Login example_service unknown_login [] example_world =
     Login example_service wrong_password_login [] example_world \<and>
   AuthHandler_Login example_service (Bound unknown_login) empty_context example_world =
     AuthHandler_Login example_service (Bound wrong_password_login) empty_context example_world \<and>
   fst (AuthHandler_Login example_service (Bound unknown_login) empty_context example_world) =
     Unauthorized empty_context ''invalid email or password''"
proof -
  have a: "userRepository_FindByEmail (login_Email unknown_login) example_world =
     (Inl ErrNotFound, example_world\<lparr>stmts := Suc 0\<rparr>)"
    by (simp add: FindByEmail_result unknown_login_def)
  have b: "userRepository_FindByEmail (login_Email wrong_password_login) example_world =
     (Inr alice, example_world\<lparr>stmts := Suc 0\<rparr>)"
    by (simp add: FindByEmail_result wrong_password_login_def)
  have c: "CheckPassword (hasher example_service) (login_Password wrong_password_login)
     (user_Password alice) =
     Some (ErrorNew ''hashedPassword is not the hash of the given password'')"
    by (simp add: example_bcrypt_check wrong_password_login_def)
  from login_failures_indistinguishable
    [of unknown_login example_world "example_world\<lparr>stmts := Suc 0\<rparr>"
        wrong_password_login example_world alice "example_world\<lparr>stmts := Suc 0\<rparr>"
        example_service "ErrorNew ''hashedPassword is not the hash of the given password''"
        "[]" "[]" empty_context] a b c
  show ?thesis
    by simp
qed

subsection \<open>The user agent of a session record\<close>

text \<open>
  Claim C10. Register, Login and Refresh, when they succeed, append exactly one
  session record, the one of the refresh token they return, and its user agent is the
  empty string; the result of Login does not depend on its \<open>userAgent\<close> argument.
\<close>

theorem session_user_agent_empty:
  "(Register s rreq w = (Inr resp, w') \<longrightarrow>
      (\<exists>rt. refresh_tokens w' = refresh_tokens w @ [rt] \<and>
            rt_Token rt = resp_RefreshToken resp \<and> rt_UserAgent rt = '''')) \<and>
   (Login s lreq userAgent w = (Inr resp, w') \<longrightarrow>
      (\<exists>rt. refresh_tokens w' = refresh_tokens w @ [rt] \<and>
            rt_Token rt = resp_RefreshToken resp \<and> rt_UserAgent rt = '''')) \<and>
   (RefreshTokens s freq w = (Inr resp, w') \<longrightarrow>
      (\<exists>rt. refresh_tokens w' =
              filter (\<lambda>r. rt_Token r \<noteq> refresh_RefreshToken freq) (refresh_tokens w) @ [rt] \<and>
            rt_Token rt = resp_RefreshToken resp \<and> rt_UserAgent rt = '''')) \<and>
   Login s lreq userAgent w = Login s lreq userAgent' w"
proof (intro conjI impI)
  assume "Register s rreq w = (Inr resp, w')"
  from Register_Inr [OF this] buildAuthResponse_new_record
  show "\<exists>rt. refresh_tokens w' = refresh_tokens w @ [rt] \<and>
            rt_Token rt = resp_RefreshToken resp \<and> rt_UserAgent rt = ''''"
    by metis
next
  assume "Login s lreq userAgent w = (Inr resp, w')"
  from Login_Inr [OF this] buildAuthResponse_new_record
  show "\<exists>rt. refresh_tokens w' = refresh_tokens w @ [rt] \<and>
            rt_Token rt = resp_RefreshToken resp \<and> rt_UserAgent rt = ''''"
    by metis
next
  assume "RefreshTokens s freq w = (Inr resp, w')"
  from RefreshTokens_Inr [OF this] obtain user where
    "buildAuthResponse s user (refresh_DeviceID freq) (rotated w (refresh_RefreshToken freq))
       = (Inr resp, w')"
    by blast
  from buildAuthResponse_new_record [OF this]
  show "\<exists>rt. refresh_tokens w' =
              filter (\<lambda>r. rt_Token r \<noteq> refresh_RefreshToken freq) (refresh_tokens w) @ [rt] \<and>
            rt_Token rt = resp_RefreshToken resp \<and> rt_UserAgent rt = ''''"
    by (simp add: rotated_def)
next
  show "Login s lreq userAgent w = Login s lreq userAgent' w"
    by (simp add: Login_def)
qed

theorem session_user_agent_empty_witness:
  "(\<exists>resp w'. Register example_service bob_register example_world = (Inr resp, w') \<and>
      map rt_UserAgent (refresh_tokens w') = ['''']) \<and>
   (\<exists>resp w'. Login example_service alice_login (str ''curl/8.0'') example_world = (Inr resp, w') \<and>
      map rt_UserAgent (refresh_tokens w') = ['''']) \<and>
   (\<exists>resp w'. RefreshTokens example_service example_refresh session_world = (Inr resp, w') \<and>
      map rt_UserAgent (refresh_tokens w') = [''''])"
proof (intro conjI)
  from register_runs obtain resp w' where
    run: "Register example_service bob_register example_world = (Inr resp, w')"
    by blast
  from session_user_agent_empty
    [of example_service bob_register example_world resp w' alice_login "[]" example_refresh "[]"]
    run
  have "\<exists>rt. refresh_tokens w' = refresh_tokens example_world @ [rt] \<and> rt_UserAgent rt = ''''"
    by blast
  then have "map rt_UserAgent (refresh_tokens w') = ['''']"
    by auto
  with run show "\<exists>resp w'. Register example_service bob_register example_world = (Inr resp, w') \<and>
      map rt_UserAgent (refresh_tokens w') = ['''']"
    by auto
next
  from login_runs obtain resp w' where
    run: "Login example_service alice_login (str ''curl/8.0'') example_world = (Inr resp, w')"
    by blast
  from session_user_agent_empty
    [of example_service bob_register example_world resp w' alice_login "str ''curl/8.0''"
        example_refresh "[]"]
    run
  have "\<exists>rt. refresh_tokens w' = refresh_tokens example_world @ [rt] \<and> rt_UserAgent rt = ''''"
    by blast
  then have "map rt_UserAgent (refresh_tokens w') = ['''']"
    by auto
  with run show "\<exists>resp w'.
      Login example_service alice_login (str ''curl/8.0'') example_world = (Inr resp, w') \<and>
      map rt_UserAgent (refresh_tokens w') = ['''']"
    by auto
next
  from example_refresh_runs obtain resp w' where
    run: "RefreshTokens example_service example_refresh session_world = (Inr resp, w')"
    by blast
  from session_user_agent_empty
    [of example_service bob_register session_world resp w' alice_login "[]" example_refresh "[]"]
    run
  have "\<exists>rt. refresh_tokens w' =
      filter (\<lambda>r. rt_Token r \<noteq> refresh_RefreshToken example_refresh)
        (refresh_tokens session_world) @ [rt] \<and> rt_UserAgent rt = ''''"
    by blast
  then have "map rt_UserAgent (refresh_tokens w') = ['''']"
    by (auto simp: example_refresh_def alice_session_def)
  with run show "\<exists>resp w'.
      RefreshTokens example_service example_refresh session_world = (Inr resp, w') \<and>
      map rt_UserAgent (refresh_tokens w') = ['''']"
    by auto
qed

subsection \<open>The two expiries of a refresh token\<close>

text \<open>
  The record's expiry is the third clock reading of the issue sub-flow plus seven
  days, whatever the manager's refresh TTL is; the token's expires-at claim is the
  second reading plus the refresh TTL, truncated to the second.
\<close>

lemma issued_expiries:
  "buildAuthResponse s user deviceID w = (Inr resp, w') \<Longrightarrow>
     \<exists>rt. refresh_tokens w' = refresh_tokens w @ [rt] \<and>
          rt_Token rt = resp_RefreshToken resp \<and>
          rt_ExpiresAt rt = clock w (reads w + 2) + 7 * 24 * Hour \<and>
          token_expiry (rt_Token rt) =
            Some (NewNumericDate (clock w (Suc (reads w)) + refreshTTL (jwtManager s)))"
  by (auto simp: issued_record_def issued_refresh_def token_expiry_def
        dest!: buildAuthResponse_Inr)

text \<open>
  Claim C2 does not hold of the code. With a refresh TTL of one hour, a login stores a
  record that expires seven days (and two milliseconds) after the clock's 1000 s,
  while the refresh token it returns expires one hour after.
\<close>

theorem record_expiry_ignores_refreshTTL:
  "refreshTTL (jwtManager short_service) = 1 * Hour \<and>
   map rt_ExpiresAt (refresh_tokens (snd (Login short_service alice_login [] example_world))) =
     [1000 * Second + 2000000 + 168 * Hour] \<and>
   map (\<lambda>r. token_expiry (rt_Token r))
     (refresh_tokens (snd (Login short_service alice_login [] example_world))) =
     [Some (1000 * Second + 1 * Hour)] \<and>
   fst (Login short_service alice_login [] example_world) =
     Inr \<lparr>resp_AccessToken = issued_access short_service alice example_world,
          resp_RefreshToken = issued_refresh short_service alice example_world,
          resp_User = alice\<rparr>"
  by (simp add: Login_def FindByEmail_result alice_login_def example_bcrypt_check
        short_service_def short_manager_def New_def
        buildAuthResponse_result refreshTokenRepository_Create_def db_statement_def
        issued_record_def issued_refresh_def issued_access_def token_expiry_def
        NewNumericDate_def Second_def Minute_def Hour_def)

end
